theory Spec2Isabelle
  imports Complex_Main
begin

section \<open>JavaScript numbers\<close>

text \<open>
  Every price of the ticker is a JavaScript \<open>number\<close>. The model keeps the three special
  values the program really meets (\<open>Infinity\<close> and \<open>-Infinity\<close> are the sentinels of
  the day bounds and the results of \<open>Math.min()\<close> and \<open>Math.max()\<close> on no arguments, \<open>NaN\<close>
  comes out of \<open>parseFloat\<close>, of \<open>0 / 0\<close> and of arithmetic on \<open>undefined\<close>) and takes
  the finite values as exact reals: rounding and overflow of IEEE doubles and the sign of zero
  are not modelled.
\<close>

datatype number = NaN | NegInf | Fin real | PosInf

fun js_add :: "number \<Rightarrow> number \<Rightarrow> number" where
  "js_add (Fin a) (Fin b) = Fin (a + b)"
| "js_add NaN _ = NaN"
| "js_add _ NaN = NaN"
| "js_add PosInf NegInf = NaN"
| "js_add NegInf PosInf = NaN"
| "js_add PosInf _ = PosInf"
| "js_add _ PosInf = PosInf"
| "js_add NegInf _ = NegInf"
| "js_add _ NegInf = NegInf"

fun js_neg :: "number \<Rightarrow> number" where
  "js_neg NaN = NaN"
| "js_neg NegInf = PosInf"
| "js_neg (Fin a) = Fin (- a)"
| "js_neg PosInf = NegInf"

definition js_sub :: "number \<Rightarrow> number \<Rightarrow> number" where
  "js_sub a b = js_add a (js_neg b)"

text \<open>An infinity times a finite factor: the sign of the factor decides, and zero gives NaN.\<close>

definition inf_times :: "real \<Rightarrow> number" where
  "inf_times r = (if r = 0 then NaN else if 0 < r then PosInf else NegInf)"

fun js_mul :: "number \<Rightarrow> number \<Rightarrow> number" where
  "js_mul (Fin a) (Fin b) = Fin (a * b)"
| "js_mul NaN _ = NaN"
| "js_mul _ NaN = NaN"
| "js_mul PosInf PosInf = PosInf"
| "js_mul PosInf NegInf = NegInf"
| "js_mul NegInf PosInf = NegInf"
| "js_mul NegInf NegInf = PosInf"
| "js_mul PosInf (Fin b) = inf_times b"
| "js_mul (Fin a) PosInf = inf_times a"
| "js_mul NegInf (Fin b) = inf_times (- b)"
| "js_mul (Fin a) NegInf = inf_times (- a)"

text \<open>
  The only divisions of the program are \<open>sum / array.length\<close>: the divisor is a length,
  so it is a natural number and its zero is the positive zero.
\<close>

fun js_div_length :: "number \<Rightarrow> nat \<Rightarrow> number" where
  "js_div_length NaN n = NaN"
| "js_div_length PosInf n = PosInf"
| "js_div_length NegInf n = NegInf"
| "js_div_length (Fin a) n =
     (if n = 0 then (if a = 0 then NaN else if 0 < a then PosInf else NegInf)
      else Fin (a / real n))"

text \<open>The relational operators: every comparison with NaN is false.\<close>

fun js_lt :: "number \<Rightarrow> number \<Rightarrow> bool" where
  "js_lt (Fin a) (Fin b) = (a < b)"
| "js_lt NaN _ = False"
| "js_lt _ NaN = False"
| "js_lt NegInf NegInf = False"
| "js_lt NegInf _ = True"
| "js_lt _ NegInf = False"
| "js_lt PosInf _ = False"
| "js_lt _ PosInf = True"

text \<open>\<open>a === b\<close> on numbers: NaN is not equal to itself.\<close>

definition js_eq :: "number \<Rightarrow> number \<Rightarrow> bool" where
  "js_eq a b = (a \<noteq> NaN \<and> a = b)"

definition js_le :: "number \<Rightarrow> number \<Rightarrow> bool" where
  "js_le a b = (js_lt a b \<or> js_eq a b)"

definition js_gt :: "number \<Rightarrow> number \<Rightarrow> bool" where
  "js_gt a b = js_lt b a"

definition js_ge :: "number \<Rightarrow> number \<Rightarrow> bool" where
  "js_ge a b = js_le b a"

text \<open>\<open>Math.pow(x, 2)\<close> and \<open>Math.sqrt(x)\<close>.\<close>

fun Math_pow_2 :: "number \<Rightarrow> number" where
  "Math_pow_2 NaN = NaN"
| "Math_pow_2 NegInf = PosInf"
| "Math_pow_2 (Fin a) = Fin (a * a)"
| "Math_pow_2 PosInf = PosInf"

fun Math_sqrt :: "number \<Rightarrow> number" where
  "Math_sqrt NaN = NaN"
| "Math_sqrt NegInf = NaN"
| "Math_sqrt (Fin a) = (if a < 0 then NaN else Fin (sqrt a))"
| "Math_sqrt PosInf = PosInf"

text \<open>
  \<open>Math.min(...xs)\<close> and \<open>Math.max(...xs)\<close>: \<open>Infinity\<close> and \<open>-Infinity\<close> on no
  argument, NaN as soon as one argument is NaN.
\<close>

fun min2 :: "number \<Rightarrow> number \<Rightarrow> number" where
  "min2 NaN _ = NaN"
| "min2 _ NaN = NaN"
| "min2 a b = (if js_lt b a then b else a)"

fun max2 :: "number \<Rightarrow> number \<Rightarrow> number" where
  "max2 NaN _ = NaN"
| "max2 _ NaN = NaN"
| "max2 a b = (if js_lt a b then b else a)"

primrec Math_min :: "number list \<Rightarrow> number" where
  "Math_min [] = PosInf"
| "Math_min (x # xs) = min2 x (Math_min xs)"

primrec Math_max :: "number list \<Rightarrow> number" where
  "Math_max [] = NegInf"
| "Math_max (x # xs) = max2 x (Math_max xs)"

text \<open>
  \<open>xs.includes(x)\<close> compares with SameValueZero, under which NaN is found in a list that
  holds it: on this type it is membership. \<open>xs.slice(start)\<close> for an integer \<open>start\<close>
  counts a negative \<open>start\<close> from the end.
\<close>

definition includes_js :: "number list \<Rightarrow> number \<Rightarrow> bool" where
  "includes_js xs x = (x \<in> set xs)"

definition slice :: "int \<Rightarrow> 'a list \<Rightarrow> 'a list" where
  "slice start xs =
     (if start < 0 then drop (nat (max (int (length xs) + start) 0)) xs
      else drop (nat (min start (int (length xs)))) xs)"

section \<open>The ticker\<close>

text \<open>
  A \<open>Date\<close> carries its epoch milliseconds and the day of the month that \<open>getDate()\<close>
  reports for it in the host's time zone.
\<close>

datatype Date = Date (getTime: int) (getDate: nat)

datatype signal = BUY | SELL | NEUTRAL

datatype trend = UP | DOWN | NEUTRAL_trend

datatype price_entry = PriceEntry (entry_price: number) (entry_timestamp: "Date option")

datatype score_entry = ScoreEntry (entry_score: signal) (score_timestamp: "Date option")

text \<open>
  The fields of class \<open>Ticker\<close>. \<open>date\<close> is \<open>undefined\<close> until the first sample
  (\<open>None\<close>). \<open>price\<close> is \<open>undefined\<close> until then too; every operator the program
  applies to it while it is so (\<open>-\<close>, \<open><\<close>, \<open>>\<close>, \<open><=\<close>, \<open>>=\<close>) converts
  \<open>undefined\<close> to NaN first, so the field starts as NaN here. The interval-driven variant of
  the class has no day bounds; its functions leave those two fields alone.
\<close>

record ticker =
  symbol :: string
  price :: number
  previousPrice :: number
  date :: "Date option"
  score :: signal
  currency :: string
  endPoint :: string
  lowPriceOfTheDay :: number
  highPriceOfTheDay :: number
  priceHistory :: "price_entry list"
  scoreHistory :: "score_entry list"
  supportLevels :: "number list"
  resistanceLevels :: "number list"
  trendDirection :: trend

text \<open>
  The constructor, without its calls of \<open>addHistory\<close> and of the scheduler: the histories
  of a ticker are filled by \<open>fetchPrice\<close> alone here. \<open>addHistory\<close> pushes daily bars
  on the price history and calls \<open>updateSupportResistanceLevels\<close> after each; the facts
  below about one accepted sample are stated for every state, whatever filled its history,
  and only the facts about runs start from this fresh ticker.
\<close>

definition new_Ticker :: "string \<Rightarrow> string \<Rightarrow> ticker" where
  "new_Ticker sy cu =
     \<lparr> symbol = sy, price = NaN, previousPrice = Fin 0, date = None, score = NEUTRAL,
       currency = cu,
       endPoint = ''https://data-asg.goldprice.org/GetData/'' @ cu @ ''-'' @ sy @ ''/1'',
       lowPriceOfTheDay = PosInf, highPriceOfTheDay = NegInf,
       priceHistory = [], scoreHistory = [], supportLevels = [], resistanceLevels = [],
       trendDirection = NEUTRAL_trend \<rparr>"

datatype error =
    NetworkError
  | RequestFailed nat
  | InvalidJson
  | InvalidOrEmpty
  | TypeError

subsection \<open>Day bounds\<close>

text \<open>
  \<open>updatePriceOfTheDay\<close> reads \<open>this.date.getDate()\<close> into \<open>currentDay\<close> and then
  compares \<open>this.date.getDate()\<close> with it. Its first statement throws when \<open>date\<close> is
  still \<open>undefined\<close>.
\<close>

definition updatePriceOfTheDay_on :: "Date \<Rightarrow> ticker \<Rightarrow> ticker" where
  "updatePriceOfTheDay_on d s =
     (let currentDay = getDate d;
          s1 = (if getDate d \<noteq> currentDay
                then s\<lparr>lowPriceOfTheDay := PosInf, highPriceOfTheDay := NegInf\<rparr> else s);
          s2 = (if js_lt (price s1) (lowPriceOfTheDay s1)
                then s1\<lparr>lowPriceOfTheDay := price s1\<rparr> else s1);
          s3 = (if js_gt (price s2) (highPriceOfTheDay s2)
                then s2\<lparr>highPriceOfTheDay := price s2\<rparr> else s2)
      in s3)"

definition updatePriceOfTheDay :: "ticker \<Rightarrow> error + ticker" where
  "updatePriceOfTheDay s =
     (case date s of None \<Rightarrow> Inl TypeError | Some d \<Rightarrow> Inr (updatePriceOfTheDay_on d s))"

subsection \<open>History buffer and levels\<close>

definition getPriceHistory :: "int \<Rightarrow> ticker \<Rightarrow> number list" where
  "getPriceHistory count s = map entry_price (slice (- count) (priceHistory s))"

definition updateSupportResistanceLevels :: "ticker \<Rightarrow> ticker" where
  "updateSupportResistanceLevels s =
     (let allPrices = map entry_price (priceHistory s);
          minPrice = Math_min allPrices;
          maxPrice = Math_max allPrices;
          s1 = (if js_eq (price s) minPrice \<and> \<not> includes_js (supportLevels s) (price s)
                then s\<lparr>supportLevels := supportLevels s @ [price s]\<rparr> else s);
          s2 = (if js_eq (price s1) maxPrice \<and> \<not> includes_js (resistanceLevels s1) (price s1)
                then s1\<lparr>resistanceLevels := resistanceLevels s1 @ [price s1]\<rparr> else s1)
      in s2)"

definition storePriceData :: "ticker \<Rightarrow> ticker" where
  "storePriceData s =
     (let s1 = s\<lparr>priceHistory := priceHistory s @ [PriceEntry (price s) (date s)]\<rparr>;
          s2 = (if length (priceHistory s1) > 100
                then s1\<lparr>priceHistory := tl (priceHistory s1)\<rparr> else s1)
      in updateSupportResistanceLevels s2)"

subsection \<open>Indicators and classifier\<close>

definition calculateVolatility :: "ticker \<Rightarrow> number" where
  "calculateVolatility s =
     (let priceHistory = getPriceHistory 10 s;
          mean = js_div_length (foldl (\<lambda>acc p. js_add acc p) (Fin 0) priceHistory)
                   (length priceHistory);
          variance =
            js_div_length
              (foldl (\<lambda>acc p. js_add acc (Math_pow_2 (js_sub p mean))) (Fin 0) priceHistory)
              (length priceHistory)
      in Math_sqrt variance)"

definition calculateTrendStrength :: "ticker \<Rightarrow> number" where
  "calculateTrendStrength s =
     (let prices = getPriceHistory 10 s;
          sma = js_div_length (foldl (\<lambda>acc p. js_add acc p) (Fin 0) prices) (length prices);
          trendStrength = js_sub (price s) sma
      in if js_le (price s) (Math_min (supportLevels s))
         then js_mul trendStrength (Fin (12 / 10))
         else if js_ge (price s) (Math_max (resistanceLevels s))
         then js_mul trendStrength (Fin (- (12 / 10)))
         else trendStrength)"

definition calculateScore :: "ticker \<Rightarrow> signal" where
  "calculateScore s =
     (let priceChange = js_sub (price s) (previousPrice s);
          volatility = calculateVolatility s;
          trendStrength = calculateTrendStrength s;
          isNearSupport =
            list_ex (\<lambda>level. js_le (price s) (js_mul level (Fin (101 / 100)))) (supportLevels s);
          isNearResistance =
            list_ex (\<lambda>level. js_ge (price s) (js_mul level (Fin (99 / 100))))
              (resistanceLevels s)
      in if js_gt priceChange (Fin 0) \<and> js_lt volatility (Fin (2 / 100)) \<and>
            js_gt trendStrength (Fin (5 / 10)) \<and> \<not> isNearResistance
         then BUY
         else if js_lt priceChange (Fin 0) \<and> js_lt volatility (Fin (2 / 100)) \<and>
            js_lt trendStrength (Fin (- (5 / 10))) \<and> \<not> isNearSupport
         then SELL
         else NEUTRAL)"

definition storeScore :: "ticker \<Rightarrow> ticker" where
  "storeScore s =
     (let sc = calculateScore s;
          s1 = s\<lparr>scoreHistory := scoreHistory s @ [ScoreEntry sc (date s)]\<rparr>
      in if length (scoreHistory s1) > 100
         then s1\<lparr>scoreHistory := tl (scoreHistory s1)\<rparr> else s1)"

subsection \<open>Trend state machine\<close>

definition detectBOS :: "ticker \<Rightarrow> ticker" where
  "detectBOS s =
     (let recentHigh = Math_max (getPriceHistory 10 s);
          recentLow = Math_min (getPriceHistory 10 s)
      in if js_gt (price s) recentHigh then s\<lparr>trendDirection := UP\<rparr>
         else if js_lt (price s) recentLow then s\<lparr>trendDirection := DOWN\<rparr>
         else s)"

definition detectCOC :: "ticker \<Rightarrow> ticker" where
  "detectCOC s =
     (if trendDirection s = UP \<and> js_lt (price s) (previousPrice s)
      then s\<lparr>trendDirection := NEUTRAL_trend\<rparr>
      else if trendDirection s = DOWN \<and> js_gt (price s) (previousPrice s)
      then s\<lparr>trendDirection := NEUTRAL_trend\<rparr>
      else s)"

subsection \<open>The upstream payload\<close>

text \<open>
  What \<open>await response.json()\<close> can give is a JSON value. \<open>fetched\<close> is the outcome of
  the request: \<open>fetch\<close> itself rejects, or a response arrives with its \<open>ok\<close> flag, its
  status and its body (\<open>None\<close> when the body is not JSON and \<open>json()\<close> rejects).
\<close>

datatype json =
    JNull
  | JBool bool
  | JNumber real
  | JString string
  | JArray "json list"
  | JObject "(string \<times> json) list"

datatype fetched = Rejected | Response (ok: bool) (status: nat) (json_body: "json option")

fun truthy :: "json \<Rightarrow> bool" where
  "truthy JNull = False"
| "truthy (JBool b) = b"
| "truthy (JNumber r) = (r \<noteq> 0)"
| "truthy (JString str) = (str \<noteq> [])"
| "truthy (JArray xs) = True"
| "truthy (JObject kvs) = True"

text \<open>
  \<open>data[0]\<close>, \<open>None\<close> for \<open>undefined\<close>: the first element of an array, the first
  character of a string, the property \<open>"0"\<close> of an object (the last one wins when the text
  repeats a key), and nothing on a number or a boolean.
\<close>

fun index0 :: "json \<Rightarrow> json option" where
  "index0 (JArray xs) = (case xs of [] \<Rightarrow> None | x # _ \<Rightarrow> Some x)"
| "index0 (JString str) = (case str of [] \<Rightarrow> None | c # _ \<Rightarrow> Some (JString [c]))"
| "index0 (JObject kvs) = map_of (rev kvs) ''0''"
| "index0 _ = None"

text \<open>\<open>str.split(",")\<close>.\<close>

fun split_comma :: "string \<Rightarrow> string list" where
  "split_comma [] = [] # []"
| "split_comma (c # cs) =
     (if c = CHR '','' then [] # split_comma cs
      else (case split_comma cs of [] \<Rightarrow> [c] # [] | f # fs \<Rightarrow> (c # f) # fs))"

text \<open>
  The right-hand side of the assignment to \<open>this.price\<close>,
  \<open>parseFloat(data?.[0]?.split(",")[1] ?? "0")\<close>, for the value of \<open>data[0]\<close>. A string
  is split and its second field parsed (\<open>"0"\<close> when it has none); \<open>?.\<close> stops at
  \<open>undefined\<close> and \<open>null\<close> only, so any other value is asked for a \<open>split\<close> method
  that it does not have, and the call throws a TypeError. \<open>parseFloat\<close> is the runtime's;
  the model takes it as a parameter.
\<close>

definition price_field :: "(string \<Rightarrow> number) \<Rightarrow> json option \<Rightarrow> error + number" where
  "price_field parseFloat d0 =
     (case d0 of
        None \<Rightarrow> Inr (parseFloat ''0'')
      | Some JNull \<Rightarrow> Inr (parseFloat ''0'')
      | Some (JString str) \<Rightarrow>
          Inr (parseFloat (case split_comma str of _ # f # _ \<Rightarrow> f | _ \<Rightarrow> ''0''))
      | Some _ \<Rightarrow> Inl TypeError)"

subsection \<open>The update cycle\<close>

text \<open>
  \<open>fetchPrice\<close> returns the error its \<open>catch\<close> block logs, if any, and the state the
  ticker is left in: an exception leaves the fields as they are at the statement that throws.
  \<open>now\<close> is the value of \<open>new Date()\<close>.
\<close>

definition fetchPrice ::
  "(string \<Rightarrow> number) \<Rightarrow> fetched \<Rightarrow> Date \<Rightarrow> ticker \<Rightarrow> error option \<times> ticker" where
  "fetchPrice parseFloat response now s =
     (case response of
        Rejected \<Rightarrow> (Some NetworkError, s)
      | Response ok_flag code body \<Rightarrow>
          if \<not> ok_flag then (Some (RequestFailed code), s)
          else (case body of
             None \<Rightarrow> (Some InvalidJson, s)
           | Some data \<Rightarrow>
               if \<not> truthy data \<or> \<not> (case index0 data of None \<Rightarrow> False | Some v \<Rightarrow> truthy v)
               then (Some InvalidOrEmpty, s)
               else
                 (let s1 = s\<lparr>date := Some now\<rparr>;
                      s2 = s1\<lparr>previousPrice := price s1\<rparr>
                  in case price_field parseFloat (index0 data) of
                       Inl e \<Rightarrow> (Some e, s2)
                     | Inr p \<Rightarrow>
                         (let s3 = s2\<lparr>price := p\<rparr>
                          in case updatePriceOfTheDay s3 of
                               Inl e \<Rightarrow> (Some e, s3)
                             | Inr s4 \<Rightarrow>
                                 (None,
                                  detectCOC (detectBOS (storeScore (storePriceData s4))))))))"

text \<open>
  The state after an accepted sample: what the \<open>try\<close> block does from the assignment of
  \<open>this.date\<close> on, when the price expression evaluates to \<open>p\<close>.
\<close>

definition acceptSample :: "ticker \<Rightarrow> number \<Rightarrow> Date \<Rightarrow> ticker" where
  "acceptSample s p now =
     detectCOC (detectBOS (storeScore (storePriceData
       (updatePriceOfTheDay_on now
          (s\<lparr>date := Some now, previousPrice := price s, price := p\<rparr>)))))"

text \<open>The state in which \<open>storeScore\<close> calls the classifier during that cycle.\<close>

definition scoredState :: "ticker \<Rightarrow> number \<Rightarrow> Date \<Rightarrow> ticker" where
  "scoredState s p now =
     storePriceData
       (updatePriceOfTheDay_on now
          (s\<lparr>date := Some now, previousPrice := price s, price := p\<rparr>))"

fun run :: "ticker \<Rightarrow> (number \<times> Date) list \<Rightarrow> ticker" where
  "run s [] = s"
| "run s ((p, now) # samples) = run (acceptSample s p now) samples"

text \<open>Any sequence of polls, failed ones included.\<close>

fun fetchPrices :: "(string \<Rightarrow> number) \<Rightarrow> ticker \<Rightarrow> (fetched \<times> Date) list \<Rightarrow> ticker" where
  "fetchPrices parseFloat s [] = s"
| "fetchPrices parseFloat s ((response, now) # polls) =
     fetchPrices parseFloat (snd (fetchPrice parseFloat response now s)) polls"



section \<open>The interval-driven variant\<close>

text \<open>
  The second copy of class \<open>Ticker\<close> has the same \<open>getPriceHistory\<close>,
  \<open>calculateVolatility\<close>, \<open>detectBOS\<close> and \<open>detectCOC\<close>. It tracks levels over the last
  20 prices, leaves the levels out of the trend strength and of the score, and has no day
  bounds. Its price expression ends in \<open>?? 0\<close> where the other has \<open>?? "0"\<close>;
  \<open>parseFloat\<close> converts its argument to a string first, so both parse \<open>"0"\<close>.
\<close>

definition updateSupportResistanceLevels_interval :: "ticker \<Rightarrow> ticker" where
  "updateSupportResistanceLevels_interval s =
     (let recentPrices = getPriceHistory 20 s;
          minPrice = Math_min recentPrices;
          maxPrice = Math_max recentPrices;
          s1 = (if js_eq (price s) minPrice \<and> \<not> includes_js (supportLevels s) (price s)
                then s\<lparr>supportLevels := supportLevels s @ [price s]\<rparr> else s);
          s2 = (if js_eq (price s1) maxPrice \<and> \<not> includes_js (resistanceLevels s1) (price s1)
                then s1\<lparr>resistanceLevels := resistanceLevels s1 @ [price s1]\<rparr> else s1)
      in s2)"

definition storePriceData_interval :: "ticker \<Rightarrow> ticker" where
  "storePriceData_interval s =
     (let s1 = s\<lparr>priceHistory := priceHistory s @ [PriceEntry (price s) (date s)]\<rparr>;
          s2 = (if length (priceHistory s1) > 100
                then s1\<lparr>priceHistory := tl (priceHistory s1)\<rparr> else s1)
      in updateSupportResistanceLevels_interval s2)"

definition calculateTrendStrength_interval :: "ticker \<Rightarrow> number" where
  "calculateTrendStrength_interval s =
     (let prices = getPriceHistory 10 s;
          sma = js_div_length (foldl (\<lambda>acc p. js_add acc p) (Fin 0) prices) (length prices);
          trendStrength = js_sub (price s) sma
      in trendStrength)"

definition calculateScore_interval :: "ticker \<Rightarrow> signal" where
  "calculateScore_interval s =
     (let priceChange = js_sub (price s) (previousPrice s);
          volatility = calculateVolatility s;
          trendStrength = calculateTrendStrength_interval s
      in if js_gt priceChange (Fin 0) \<and> js_lt volatility (Fin (2 / 100)) \<and>
            js_gt trendStrength (Fin (5 / 10))
         then BUY
         else if js_lt priceChange (Fin 0) \<and> js_lt volatility (Fin (2 / 100)) \<and>
            js_lt trendStrength (Fin (- (5 / 10)))
         then SELL
         else NEUTRAL)"

definition storeScore_interval :: "ticker \<Rightarrow> ticker" where
  "storeScore_interval s =
     (let sc = calculateScore_interval s;
          s1 = s\<lparr>scoreHistory := scoreHistory s @ [ScoreEntry sc (date s)]\<rparr>
      in if length (scoreHistory s1) > 100
         then s1\<lparr>scoreHistory := tl (scoreHistory s1)\<rparr> else s1)"

definition fetchPrice_interval ::
  "(string \<Rightarrow> number) \<Rightarrow> fetched \<Rightarrow> Date \<Rightarrow> ticker \<Rightarrow> error option \<times> ticker" where
  "fetchPrice_interval parseFloat response now s =
     (case response of
        Rejected \<Rightarrow> (Some NetworkError, s)
      | Response ok_flag code body \<Rightarrow>
          if \<not> ok_flag then (Some (RequestFailed code), s)
          else (case body of
             None \<Rightarrow> (Some InvalidJson, s)
           | Some data \<Rightarrow>
               if \<not> truthy data \<or> \<not> (case index0 data of None \<Rightarrow> False | Some v \<Rightarrow> truthy v)
               then (Some InvalidOrEmpty, s)
               else
                 (let s1 = s\<lparr>date := Some now\<rparr>;
                      s2 = s1\<lparr>previousPrice := price s1\<rparr>
                  in case price_field parseFloat (index0 data) of
                       Inl e \<Rightarrow> (Some e, s2)
                     | Inr p \<Rightarrow>
                         (let s3 = s2\<lparr>price := p\<rparr>
                          in (None,
                              detectCOC (detectBOS
                                (storeScore_interval (storePriceData_interval s3))))))))"

definition acceptSample_interval :: "ticker \<Rightarrow> number \<Rightarrow> Date \<Rightarrow> ticker" where
  "acceptSample_interval s p now =
     detectCOC (detectBOS (storeScore_interval (storePriceData_interval
       (s\<lparr>date := Some now, previousPrice := price s, price := p\<rparr>))))"

fun run_interval :: "ticker \<Rightarrow> (number \<times> Date) list \<Rightarrow> ticker" where
  "run_interval s [] = s"
| "run_interval s ((p, now) # samples) = run_interval (acceptSample_interval s p now) samples"

fun fetchPrices_interval ::
  "(string \<Rightarrow> number) \<Rightarrow> ticker \<Rightarrow> (fetched \<times> Date) list \<Rightarrow> ticker" where
  "fetchPrices_interval parseFloat s [] = s"
| "fetchPrices_interval parseFloat s ((response, now) # polls) =
     fetchPrices_interval parseFloat (snd (fetchPrice_interval parseFloat response now s)) polls"

section \<open>Invariant of the update cycle\<close>

text \<open>
  Once a sample has been stored, the newest entry of the price history is the current price.
\<close>

definition price_recorded :: "ticker \<Rightarrow> bool" where
  "price_recorded s \<longleftrightarrow>
     priceHistory s \<noteq> [] \<and> entry_price (last (priceHistory s)) = price s"

text \<open>
  Both histories are filled by \<open>push\<close> followed by one \<open>shift\<close> when the length has
  passed 100; \<open>pushed\<close> names the resulting list.
\<close>

definition pushed :: "'a list \<Rightarrow> 'a \<Rightarrow> 'a list" where
  "pushed xs x = (if 100 < length (xs @ [x]) then tl (xs @ [x]) else xs @ [x])"

section \<open>Facts about the number operations\<close>


lemma js_add_Fin_iff: "js_add a b = Fin c \<longleftrightarrow> (\<exists>x y. a = Fin x \<and> b = Fin y \<and> c = x + y)"
  by (cases a; cases b) auto

lemma js_sub_Fin_iff: "js_sub a b = Fin c \<longleftrightarrow> (\<exists>x y. a = Fin x \<and> b = Fin y \<and> c = x - y)"
  by (cases a; cases b) (auto simp: js_sub_def)

lemma Math_pow_2_Fin_iff: "Math_pow_2 a = Fin c \<longleftrightarrow> (\<exists>x. a = Fin x \<and> c = x * x)"
  by (cases a) auto

lemma js_div_length_Fin_iff:
  "0 < n \<Longrightarrow> js_div_length a n = Fin c \<longleftrightarrow> (\<exists>x. a = Fin x \<and> c = x / real n)"
  by (cases a) auto

lemma sqrt_less_numeral: "0 \<le> v \<Longrightarrow> 0 < c \<Longrightarrow> sqrt v < c \<Longrightarrow> v < c * c"
proof -
  assume v: "0 \<le> v" and c: "0 < c" and lt: "sqrt v < c"
  have "sqrt v * sqrt v < c * c"
    using lt v by (intro mult_strict_mono') auto
  then show ?thesis using v by simp
qed

lemma js_lt_sqrt_Fin:
  "0 < c \<Longrightarrow> js_lt (Math_sqrt x) (Fin c) \<Longrightarrow> \<exists>v. x = Fin v \<and> 0 \<le> v \<and> v < c * c"
  by (cases x) (auto split: if_splits intro: sqrt_less_numeral simp: not_less)

lemma foldl_sq_acc_Fin:
  "foldl (\<lambda>acc p. js_add acc (Math_pow_2 (h p))) a0 w = Fin c \<Longrightarrow> \<exists>a. a0 = Fin a"
proof (induction w arbitrary: a0)
  case Nil
  then show ?case by simp
next
  case (Cons x w)
  from Cons.prems have "foldl (\<lambda>acc p. js_add acc (Math_pow_2 (h p))) (js_add a0 (Math_pow_2 (h x))) w = Fin c"
    by simp
  from Cons.IH[OF this] obtain a where "js_add a0 (Math_pow_2 (h x)) = Fin a" by auto
  then show ?case by (auto simp: js_add_Fin_iff)
qed

lemma foldl_sq_bound:
  "foldl (\<lambda>acc p. js_add acc (Math_pow_2 (h p))) (Fin a) w = Fin c \<Longrightarrow>
   a \<le> c \<and> (\<forall>x \<in> set w. \<exists>r. h x = Fin r \<and> a + r * r \<le> c)"
proof (induction w arbitrary: a)
  case Nil
  then show ?case by simp
next
  case (Cons x w)
  from Cons.prems obtain a' where a': "js_add (Fin a) (Math_pow_2 (h x)) = Fin a'"
    using foldl_sq_acc_Fin[of h "js_add (Fin a) (Math_pow_2 (h x))" w c] by auto
  then obtain r where r: "h x = Fin r" "a' = a + r * r"
    by (auto simp: js_add_Fin_iff Math_pow_2_Fin_iff)
  from Cons.prems a' have "foldl (\<lambda>acc p. js_add acc (Math_pow_2 (h p))) (Fin a') w = Fin c"
    by simp
  from Cons.IH[OF this] have ih: "a' \<le> c" "\<forall>y \<in> set w. \<exists>q. h y = Fin q \<and> a' + q * q \<le> c"
    by auto
  have nn: "0 \<le> r * r" by simp
  show ?case
  proof (intro conjI ballI)
    show "a \<le> c" using ih(1) r(2) nn by linarith
  next
    fix y assume "y \<in> set (x # w)"
    then consider "y = x" | "y \<in> set w" by auto
    then show "\<exists>q. h y = Fin q \<and> a + q * q \<le> c"
    proof cases
      case 1
      then show ?thesis using r ih(1) by auto
    next
      case 2
      with ih(2) obtain q where q: "h y = Fin q" "a' + q * q \<le> c" by auto
      have "a + q * q \<le> c" using q(2) r(2) nn by linarith
      then show ?thesis using q(1) by auto
    qed
  qed
qed

lemma small_square: "(r::real) * r < 4 / 1000 \<Longrightarrow> \<bar>r\<bar> < 7 / 100"
proof (rule ccontr)
  assume sq: "r * r < 4 / 1000" and "\<not> \<bar>r\<bar> < 7 / 100"
  then have "7 / 100 \<le> \<bar>r\<bar>" by simp
  then have "(7 / 100) * (7 / 100) \<le> \<bar>r\<bar> * \<bar>r\<bar>"
    by (intro mult_mono) auto
  then show False using sq by simp
qed


lemma slice_neg: "0 < n \<Longrightarrow> slice (- n) xs = drop (length xs - nat n) xs"
  by (auto simp: slice_def max_def intro!: arg_cong2[where f=drop])

lemma getPriceHistory_pos:
  "0 < n \<Longrightarrow> getPriceHistory n s = map entry_price (drop (length (priceHistory s) - nat n) (priceHistory s))"
  by (simp add: getPriceHistory_def slice_neg)

lemma length_getPriceHistory:
  "0 < n \<Longrightarrow> length (getPriceHistory n s) = min (nat n) (length (priceHistory s))"
  by (auto simp: getPriceHistory_pos)

lemma getPriceHistory_last:
  assumes "0 < n" "priceHistory s \<noteq> []"
  shows "getPriceHistory n s \<noteq> []"
    and "last (getPriceHistory n s) = entry_price (last (priceHistory s))"
proof -
  let ?h = "priceHistory s"
  have lt: "length ?h - nat n < length ?h" using assms by (cases ?h) auto
  then have ne: "drop (length ?h - nat n) ?h \<noteq> []" by simp
  show "getPriceHistory n s \<noteq> []" using ne assms(1) by (simp add: getPriceHistory_pos)
  show "last (getPriceHistory n s) = entry_price (last ?h)"
    using ne lt assms(1) by (simp add: getPriceHistory_pos last_map)
qed


lemma price_in_window:
  assumes "price_recorded s"
  shows "getPriceHistory 10 s \<noteq> []" and "price s \<in> set (getPriceHistory 10 s)"
proof -
  from assms have ne: "priceHistory s \<noteq> []" and l: "entry_price (last (priceHistory s)) = price s"
    by (auto simp: price_recorded_def)
  show w: "getPriceHistory 10 s \<noteq> []" using getPriceHistory_last(1)[of 10 s] ne by simp
  have "last (getPriceHistory 10 s) = price s" using getPriceHistory_last(2)[of 10 s] ne l by simp
  then show "price s \<in> set (getPriceHistory 10 s)" using w last_in_set by metis
qed

text \<open>
  When the current price is one of the at most 10 prices of the window, a volatility below
  0.02 leaves no room for a trend: the variance is below 0.0004, so the squared distances to
  the mean sum to less than 0.004, the distance of the current price to the mean is below
  0.07, and the trend strength, even multiplied by 1.2, stays below 0.1 in absolute value,
  far from the thresholds 0.5 and -0.5.
\<close>

lemma low_volatility_flat:
  assumes ne: "getPriceHistory 10 s \<noteq> []" and mem: "price s \<in> set (getPriceHistory 10 s)"
    and vol: "js_lt (calculateVolatility s) (Fin (2 / 100))"
  shows "\<exists>r. calculateTrendStrength_interval s = Fin r \<and> \<bar>r\<bar> < 7 / 100"
proof -
  define w where "w = getPriceHistory 10 s"
  define n where "n = length w"
  define mean where "mean = js_div_length (foldl (\<lambda>acc p. js_add acc p) (Fin 0) w) n"
  define S where "S = foldl (\<lambda>acc p. js_add acc (Math_pow_2 (js_sub p mean))) (Fin 0) w"
  have n_pos: "0 < n" using ne by (simp add: n_def w_def)
  have n_le: "n \<le> 10" by (simp add: n_def w_def length_getPriceHistory)
  have vol_eq: "calculateVolatility s = Math_sqrt (js_div_length S n)"
    by (simp add: calculateVolatility_def Let_def S_def mean_def n_def w_def)
  with vol obtain v where v: "js_div_length S n = Fin v" "0 \<le> v" "v < (2 / 100) * (2 / 100)"
    using js_lt_sqrt_Fin[of "2 / 100" "js_div_length S n"] by auto
  then obtain sv where sv: "S = Fin sv" "v = sv / real n"
    using n_pos by (auto simp: js_div_length_Fin_iff)
  from sv(1) have "\<forall>x \<in> set w. \<exists>r. js_sub x mean = Fin r \<and> 0 + r * r \<le> sv"
    using foldl_sq_bound[of "\<lambda>p. js_sub p mean" 0 w sv] by (simp add: S_def)
  with mem obtain r where r: "js_sub (price s) mean = Fin r" "r * r \<le> sv"
    by (auto simp: w_def)
  have "sv = v * real n" using sv(2) n_pos by simp
  also have "\<dots> \<le> v * 10" using n_le v(2) by (intro mult_left_mono) auto
  also have "\<dots> < 4 / 1000" using v(3) by simp
  finally have "r * r < 4 / 1000" using r(2) by simp
  then have "\<bar>r\<bar> < 7 / 100" by (rule small_square)
  moreover have "calculateTrendStrength_interval s = Fin r"
    using r(1) by (simp add: calculateTrendStrength_interval_def Let_def mean_def n_def w_def)
  ultimately show ?thesis by blast
qed




section \<open>What each step changes\<close>


lemma updateSupportResistanceLevels_fields [simp]:
  "price (updateSupportResistanceLevels s) = price s"
  "previousPrice (updateSupportResistanceLevels s) = previousPrice s"
  "date (updateSupportResistanceLevels s) = date s"
  "score (updateSupportResistanceLevels s) = score s"
  "priceHistory (updateSupportResistanceLevels s) = priceHistory s"
  "scoreHistory (updateSupportResistanceLevels s) = scoreHistory s"
  "trendDirection (updateSupportResistanceLevels s) = trendDirection s"
  "lowPriceOfTheDay (updateSupportResistanceLevels s) = lowPriceOfTheDay s"
  "highPriceOfTheDay (updateSupportResistanceLevels s) = highPriceOfTheDay s"
  by (simp_all add: updateSupportResistanceLevels_def Let_def)

lemma updateSupportResistanceLevels_interval_fields [simp]:
  "price (updateSupportResistanceLevels_interval s) = price s"
  "previousPrice (updateSupportResistanceLevels_interval s) = previousPrice s"
  "date (updateSupportResistanceLevels_interval s) = date s"
  "score (updateSupportResistanceLevels_interval s) = score s"
  "priceHistory (updateSupportResistanceLevels_interval s) = priceHistory s"
  "scoreHistory (updateSupportResistanceLevels_interval s) = scoreHistory s"
  "trendDirection (updateSupportResistanceLevels_interval s) = trendDirection s"
  by (simp_all add: updateSupportResistanceLevels_interval_def Let_def)

lemma storePriceData_fields [simp]:
  "price (storePriceData s) = price s"
  "previousPrice (storePriceData s) = previousPrice s"
  "date (storePriceData s) = date s"
  "score (storePriceData s) = score s"
  "scoreHistory (storePriceData s) = scoreHistory s"
  "trendDirection (storePriceData s) = trendDirection s"
  "lowPriceOfTheDay (storePriceData s) = lowPriceOfTheDay s"
  "highPriceOfTheDay (storePriceData s) = highPriceOfTheDay s"
  by (simp_all add: storePriceData_def Let_def)

lemma storePriceData_interval_fields [simp]:
  "price (storePriceData_interval s) = price s"
  "previousPrice (storePriceData_interval s) = previousPrice s"
  "date (storePriceData_interval s) = date s"
  "score (storePriceData_interval s) = score s"
  "scoreHistory (storePriceData_interval s) = scoreHistory s"
  "trendDirection (storePriceData_interval s) = trendDirection s"
  by (simp_all add: storePriceData_interval_def Let_def)


lemma priceHistory_storePriceData [simp]:
  "priceHistory (storePriceData s) = pushed (priceHistory s) (PriceEntry (price s) (date s))"
  by (simp add: storePriceData_def Let_def pushed_def)

lemma priceHistory_storePriceData_interval [simp]:
  "priceHistory (storePriceData_interval s) =
     pushed (priceHistory s) (PriceEntry (price s) (date s))"
  by (simp add: storePriceData_interval_def Let_def pushed_def)

lemma pushed_eq: "pushed xs x = (if 100 \<le> length xs then tl xs @ [x] else xs @ [x])"
  by (cases xs) (auto simp: pushed_def)

lemma pushed_last [simp]: "pushed xs x \<noteq> []" "last (pushed xs x) = x"
  by (simp_all add: pushed_eq)

lemma length_pushed: "length xs \<le> 100 \<Longrightarrow> length (pushed xs x) \<le> 100"
  by (auto simp: pushed_eq)

lemma storeScore_fields [simp]:
  "price (storeScore s) = price s"
  "previousPrice (storeScore s) = previousPrice s"
  "date (storeScore s) = date s"
  "score (storeScore s) = score s"
  "priceHistory (storeScore s) = priceHistory s"
  "supportLevels (storeScore s) = supportLevels s"
  "resistanceLevels (storeScore s) = resistanceLevels s"
  "trendDirection (storeScore s) = trendDirection s"
  "lowPriceOfTheDay (storeScore s) = lowPriceOfTheDay s"
  "highPriceOfTheDay (storeScore s) = highPriceOfTheDay s"
  "scoreHistory (storeScore s) = pushed (scoreHistory s) (ScoreEntry (calculateScore s) (date s))"
  by (simp_all add: storeScore_def Let_def pushed_def)

lemma storeScore_interval_fields [simp]:
  "price (storeScore_interval s) = price s"
  "previousPrice (storeScore_interval s) = previousPrice s"
  "date (storeScore_interval s) = date s"
  "score (storeScore_interval s) = score s"
  "priceHistory (storeScore_interval s) = priceHistory s"
  "supportLevels (storeScore_interval s) = supportLevels s"
  "resistanceLevels (storeScore_interval s) = resistanceLevels s"
  "trendDirection (storeScore_interval s) = trendDirection s"
  "scoreHistory (storeScore_interval s) =
     pushed (scoreHistory s) (ScoreEntry (calculateScore_interval s) (date s))"
  by (simp_all add: storeScore_interval_def Let_def pushed_def)

lemma detectBOS_fields [simp]:
  "price (detectBOS s) = price s"
  "previousPrice (detectBOS s) = previousPrice s"
  "date (detectBOS s) = date s"
  "score (detectBOS s) = score s"
  "priceHistory (detectBOS s) = priceHistory s"
  "scoreHistory (detectBOS s) = scoreHistory s"
  "supportLevels (detectBOS s) = supportLevels s"
  "resistanceLevels (detectBOS s) = resistanceLevels s"
  "lowPriceOfTheDay (detectBOS s) = lowPriceOfTheDay s"
  "highPriceOfTheDay (detectBOS s) = highPriceOfTheDay s"
  by (simp_all add: detectBOS_def Let_def)

lemma detectCOC_fields [simp]:
  "price (detectCOC s) = price s"
  "previousPrice (detectCOC s) = previousPrice s"
  "date (detectCOC s) = date s"
  "score (detectCOC s) = score s"
  "priceHistory (detectCOC s) = priceHistory s"
  "scoreHistory (detectCOC s) = scoreHistory s"
  "supportLevels (detectCOC s) = supportLevels s"
  "resistanceLevels (detectCOC s) = resistanceLevels s"
  "lowPriceOfTheDay (detectCOC s) = lowPriceOfTheDay s"
  "highPriceOfTheDay (detectCOC s) = highPriceOfTheDay s"
  by (simp_all add: detectCOC_def)

lemma updatePriceOfTheDay_on_fields [simp]:
  "price (updatePriceOfTheDay_on d s) = price s"
  "previousPrice (updatePriceOfTheDay_on d s) = previousPrice s"
  "date (updatePriceOfTheDay_on d s) = date s"
  "score (updatePriceOfTheDay_on d s) = score s"
  "priceHistory (updatePriceOfTheDay_on d s) = priceHistory s"
  "scoreHistory (updatePriceOfTheDay_on d s) = scoreHistory s"
  "supportLevels (updatePriceOfTheDay_on d s) = supportLevels s"
  "resistanceLevels (updatePriceOfTheDay_on d s) = resistanceLevels s"
  "trendDirection (updatePriceOfTheDay_on d s) = trendDirection s"
  by (simp_all add: updatePriceOfTheDay_on_def Let_def)

lemma acceptSample_fields:
  "price (acceptSample s p now) = p"
  "previousPrice (acceptSample s p now) = price s"
  "date (acceptSample s p now) = Some now"
  "score (acceptSample s p now) = score s"
  "priceHistory (acceptSample s p now) = pushed (priceHistory s) (PriceEntry p (Some now))"
  "scoreHistory (acceptSample s p now) =
     pushed (scoreHistory s) (ScoreEntry (calculateScore (scoredState s p now)) (Some now))"
  "supportLevels (acceptSample s p now) = supportLevels (scoredState s p now)"
  "resistanceLevels (acceptSample s p now) = resistanceLevels (scoredState s p now)"
  by (simp_all add: acceptSample_def scoredState_def)

lemma scoredState_fields:
  "price (scoredState s p now) = p"
  "previousPrice (scoredState s p now) = price s"
  "date (scoredState s p now) = Some now"
  "score (scoredState s p now) = score s"
  "priceHistory (scoredState s p now) = pushed (priceHistory s) (PriceEntry p (Some now))"
  "scoreHistory (scoredState s p now) = scoreHistory s"
  by (simp_all add: scoredState_def)

lemma acceptSample_interval_fields:
  "price (acceptSample_interval s p now) = p"
  "previousPrice (acceptSample_interval s p now) = price s"
  "date (acceptSample_interval s p now) = Some now"
  "score (acceptSample_interval s p now) = score s"
  "priceHistory (acceptSample_interval s p now) =
     pushed (priceHistory s) (PriceEntry p (Some now))"
  by (simp_all add: acceptSample_interval_def)

lemma price_recorded_scoredState: "price_recorded (scoredState s p now)"
  by (simp add: price_recorded_def scoredState_fields)


lemma price_recorded_acceptSample_interval: "price_recorded (acceptSample_interval s p now)"
  by (simp add: price_recorded_def acceptSample_interval_fields)


section \<open>Polls and runs\<close>

text \<open>
  A poll leaves the ticker as it was, or with only \<open>date\<close> and \<open>previousPrice\<close>
  overwritten (the price expression threw), or in the state of an accepted sample.
\<close>

lemma price_field_cases:
  "price_field pf d0 = Inl TypeError \<or> (\<exists>p. price_field pf d0 = Inr p)"
  by (auto simp: price_field_def split: option.splits json.splits)

lemma fetchPrice_cases:
  obtains (unchanged) e where "fetchPrice pf r now s = (Some e, s)"
  | (partial) "fetchPrice pf r now s =
                 (Some TypeError, s\<lparr>date := Some now, previousPrice := price s\<rparr>)"
  | (accepted) p where "fetchPrice pf r now s = (None, acceptSample s p now)"
proof (cases r)
  case Rejected
  then have "fetchPrice pf r now s = (Some NetworkError, s)" by (simp add: fetchPrice_def)
  then show ?thesis by (rule unchanged)
next
  case (Response ok_flag code body)
  show ?thesis
  proof (cases "ok_flag \<and> body \<noteq> None")
    case False
    then consider "\<not> ok_flag" | "ok_flag" "body = None" by blast
    then show ?thesis
    proof cases
      case 1
      with Response have "fetchPrice pf r now s = (Some (RequestFailed code), s)"
        by (simp add: fetchPrice_def)
      then show ?thesis by (rule unchanged)
    next
      case 2
      with Response have "fetchPrice pf r now s = (Some InvalidJson, s)"
        by (simp add: fetchPrice_def)
      then show ?thesis by (rule unchanged)
    qed
  next
    case True
    then obtain data where data: "ok_flag" "body = Some data" by auto
    show ?thesis
    proof (cases "\<not> truthy data \<or> \<not> (case index0 data of None \<Rightarrow> False | Some v \<Rightarrow> truthy v)")
      case True
      with Response data have "fetchPrice pf r now s = (Some InvalidOrEmpty, s)"
        by (simp add: fetchPrice_def)
      then show ?thesis by (rule unchanged)
    next
      case False
      from price_field_cases[of pf "index0 data"] show ?thesis
      proof
        assume "price_field pf (index0 data) = Inl TypeError"
        with Response data False have "fetchPrice pf r now s =
            (Some TypeError, s\<lparr>date := Some now, previousPrice := price s\<rparr>)"
          by (simp add: fetchPrice_def Let_def)
        then show ?thesis by (rule partial)
      next
        assume "\<exists>p. price_field pf (index0 data) = Inr p"
        then obtain p where "price_field pf (index0 data) = Inr p" ..
        then have "fetchPrice pf r now s = (None, acceptSample s p now)"
          using Response data False
          by (simp add: fetchPrice_def Let_def updatePriceOfTheDay_def acceptSample_def)
        then show ?thesis using accepted by blast
      qed
    qed
  qed
qed

lemma fetchPrices_invariant:
  assumes "I s"
    and "\<And>s p now. I s \<Longrightarrow> I (acceptSample s p now)"
    and "\<And>s now. I s \<Longrightarrow> I (s\<lparr>date := Some now, previousPrice := price s\<rparr>)"
  shows "I (fetchPrices pf s polls)"
  using assms(1)
proof (induction polls arbitrary: s)
  case Nil
  then show ?case by simp
next
  case (Cons poll polls)
  obtain r now where poll: "poll = (r, now)" by (cases poll)
  have "I (snd (fetchPrice pf r now s))"
    by (cases rule: fetchPrice_cases[of pf r now s]) (simp_all add: Cons.prems assms(2,3))
  then show ?case using Cons.IH poll by simp
qed

lemma run_invariant:
  assumes "I s" and "\<And>s p now. I s \<Longrightarrow> I (acceptSample s p now)"
  shows "I (run s samples)"
  using assms(1)
  by (induction s samples rule: run.induct) (simp_all add: assms(2))

lemma run_snoc: "run s (samples @ [(p, now)]) = acceptSample (run s samples) p now"
  by (induction s samples rule: run.induct) simp_all

section \<open>The newest entry of the history\<close>

text \<open>
  Claim C10. After an accepted sample, in the cron-driven and in the interval-driven variant,
  the price history is not empty and its newest entry holds the current price, which is the
  price of the sample; so every \<open>getPriceHistory(n)\<close> with \<open>n \<ge> 1\<close> is a
  non-empty list that ends with the current price.
\<close>

theorem price_is_newest_entry:
  "(let s' = acceptSample s p now
    in price s' = p \<and> priceHistory s' \<noteq> [] \<and> entry_price (last (priceHistory s')) = price s' \<and>
       (\<forall>n\<ge>1. getPriceHistory n s' \<noteq> [] \<and> last (getPriceHistory n s') = price s')) \<and>
   (let s' = acceptSample_interval s p now
    in price s' = p \<and> priceHistory s' \<noteq> [] \<and> entry_price (last (priceHistory s')) = price s' \<and>
       (\<forall>n\<ge>1. getPriceHistory n s' \<noteq> [] \<and> last (getPriceHistory n s') = price s'))"
proof -
  have a: "priceHistory (acceptSample s p now) \<noteq> []"
    "entry_price (last (priceHistory (acceptSample s p now))) = p"
    "priceHistory (acceptSample_interval s p now) \<noteq> []"
    "entry_price (last (priceHistory (acceptSample_interval s p now))) = p"
    by (simp_all add: acceptSample_fields acceptSample_interval_fields)
  have "getPriceHistory n (acceptSample s p now) \<noteq> [] \<and>
        last (getPriceHistory n (acceptSample s p now)) = p" if "1 \<le> n" for n
    using getPriceHistory_last[of n "acceptSample s p now"] that a(1,2) by simp
  moreover have "getPriceHistory n (acceptSample_interval s p now) \<noteq> [] \<and>
        last (getPriceHistory n (acceptSample_interval s p now)) = p" if "1 \<le> n" for n
    using getPriceHistory_last[of n "acceptSample_interval s p now"] that a(3,4) by simp
  ultimately show ?thesis
    using a by (simp add: Let_def acceptSample_fields acceptSample_interval_fields)
qed

theorem price_is_newest_entry_witness:
  "(1::int) \<le> 3 \<and>
   last (getPriceHistory 3 (acceptSample (new_Ticker ''XAU'' ''USD'') (Fin 10) (Date 0 1))) = Fin 10 \<and>
   last (getPriceHistory 3 (acceptSample_interval (new_Ticker ''XAU'' ''USD'') (Fin 10) (Date 0 1))) = Fin 10"
  using price_is_newest_entry[of "new_Ticker ''XAU'' ''USD''" "Fin 10" "Date 0 1"]
  by (simp add: Let_def)


section \<open>The bounded history\<close>

lemma length_priceHistory_acceptSample:
  "length (priceHistory s) \<le> 100 \<Longrightarrow> length (priceHistory (acceptSample s p now)) \<le> 100"
  by (simp add: acceptSample_fields length_pushed)

text \<open>
  Claim C6, as the program has it. Over any sequence of polls or of accepted samples the price
  history of a fresh ticker never holds more than 100 entries; a push appends the sample and,
  when the buffer is full, drops the oldest entry; and for \<open>n \<ge> 1\<close>,
  \<open>getPriceHistory(n)\<close> is the last \<open>min(n, length)\<close> prices in arrival order.
  The claim says so for \<open>n = 0\<close> too, where the program returns the whole history.
\<close>

theorem history_bounded_window:
  "length (priceHistory (fetchPrices parseFloat (new_Ticker sy cu) polls)) \<le> 100 \<and>
   length (priceHistory (run (new_Ticker sy cu) samples)) \<le> 100 \<and>
   priceHistory (acceptSample s p now) =
     (if 100 \<le> length (priceHistory s) then tl (priceHistory s) @ [PriceEntry p (Some now)]
      else priceHistory s @ [PriceEntry p (Some now)]) \<and>
   (\<forall>n\<ge>1. length (getPriceHistory n s) = min (nat n) (length (priceHistory s)) \<and>
      getPriceHistory n s =
        map entry_price
          (drop (length (priceHistory s) - min (nat n) (length (priceHistory s)))
             (priceHistory s)))"
proof (intro conjI allI impI)
  show "length (priceHistory (fetchPrices parseFloat (new_Ticker sy cu) polls)) \<le> 100"
    by (rule fetchPrices_invariant[where I = "\<lambda>s. length (priceHistory s) \<le> 100"])
       (simp_all add: new_Ticker_def length_priceHistory_acceptSample)
  show "length (priceHistory (run (new_Ticker sy cu) samples)) \<le> 100"
    by (rule run_invariant[where I = "\<lambda>s. length (priceHistory s) \<le> 100"])
       (simp_all add: new_Ticker_def length_priceHistory_acceptSample)
  show "priceHistory (acceptSample s p now) =
     (if 100 \<le> length (priceHistory s) then tl (priceHistory s) @ [PriceEntry p (Some now)]
      else priceHistory s @ [PriceEntry p (Some now)])"
    by (simp add: acceptSample_fields pushed_eq)
next
  fix n :: int assume "1 \<le> n"
  then show "length (getPriceHistory n s) = min (nat n) (length (priceHistory s))"
    by (simp add: length_getPriceHistory)
next
  fix n :: int assume "1 \<le> n"
  then have "getPriceHistory n s =
      map entry_price (drop (length (priceHistory s) - nat n) (priceHistory s))"
    by (simp add: getPriceHistory_pos)
  moreover have "length (priceHistory s) - min (nat n) (length (priceHistory s)) =
      length (priceHistory s) - nat n"
    by (simp add: min_def)
  ultimately show "getPriceHistory n s =
      map entry_price
        (drop (length (priceHistory s) - min (nat n) (length (priceHistory s))) (priceHistory s))"
    by simp
qed

theorem history_bounded_window_witness:
  "(1::int) \<le> 2 \<and>
   getPriceHistory 2
     (run (new_Ticker ''XAU'' ''USD'')
        [(Fin 10, Date 0 1), (Fin 11, Date 60000 1), (Fin 12, Date 120000 1)]) =
   [Fin 11, Fin 12]"
  using history_bounded_window[of "\<lambda>_. NaN" "''XAU''" "''USD''" "[]" "[]"
      "run (new_Ticker ''XAU'' ''USD'')
        [(Fin 10, Date 0 1), (Fin 11, Date 60000 1), (Fin 12, Date 120000 1)]" NaN "Date 0 1"]
  by (simp add: acceptSample_fields pushed_def new_Ticker_def)

theorem getPriceHistory_zero_counterexample:
  "getPriceHistory 0 (acceptSample (new_Ticker ''XAU'' ''USD'') (Fin 10) (Date 0 1)) = [Fin 10] \<and>
   length (getPriceHistory 0 (acceptSample (new_Ticker ''XAU'' ''USD'') (Fin 10) (Date 0 1))) \<noteq>
   min (nat 0) (length (priceHistory (acceptSample (new_Ticker ''XAU'' ''USD'') (Fin 10) (Date 0 1))))"
  by (simp add: getPriceHistory_def slice_def acceptSample_fields pushed_def new_Ticker_def)


section \<open>Support and resistance levels\<close>

lemma levels_updateSupportResistanceLevels:
  "supportLevels (updateSupportResistanceLevels s) =
     (if js_eq (price s) (Math_min (map entry_price (priceHistory s))) \<and>
         price s \<notin> set (supportLevels s)
      then supportLevels s @ [price s] else supportLevels s)"
  "resistanceLevels (updateSupportResistanceLevels s) =
     (if js_eq (price s) (Math_max (map entry_price (priceHistory s))) \<and>
         price s \<notin> set (resistanceLevels s)
      then resistanceLevels s @ [price s] else resistanceLevels s)"
  by (simp_all add: updateSupportResistanceLevels_def Let_def includes_js_def)

lemma levels_updateSupportResistanceLevels_interval:
  "supportLevels (updateSupportResistanceLevels_interval s) =
     (if js_eq (price s) (Math_min (getPriceHistory 20 s)) \<and> price s \<notin> set (supportLevels s)
      then supportLevels s @ [price s] else supportLevels s)"
  "resistanceLevels (updateSupportResistanceLevels_interval s) =
     (if js_eq (price s) (Math_max (getPriceHistory 20 s)) \<and> price s \<notin> set (resistanceLevels s)
      then resistanceLevels s @ [price s] else resistanceLevels s)"
  by (simp_all add: updateSupportResistanceLevels_interval_def Let_def includes_js_def)

lemma levels_acceptSample:
  "supportLevels (acceptSample s p now) =
     (if js_eq p (Math_min (map entry_price (priceHistory (acceptSample s p now)))) \<and>
         p \<notin> set (supportLevels s)
      then supportLevels s @ [p] else supportLevels s)"
  "resistanceLevels (acceptSample s p now) =
     (if js_eq p (Math_max (map entry_price (priceHistory (acceptSample s p now)))) \<and>
         p \<notin> set (resistanceLevels s)
      then resistanceLevels s @ [p] else resistanceLevels s)"
  by (simp_all add: acceptSample_def storePriceData_def Let_def
        levels_updateSupportResistanceLevels)

lemma getPriceHistory_cong:
  "priceHistory s = priceHistory t \<Longrightarrow> getPriceHistory n s = getPriceHistory n t"
  by (simp add: getPriceHistory_def)

lemma levels_acceptSample_interval:
  "supportLevels (acceptSample_interval s p now) =
     (if js_eq p (Math_min (getPriceHistory 20 (acceptSample_interval s p now))) \<and>
         p \<notin> set (supportLevels s)
      then supportLevels s @ [p] else supportLevels s)"
  "resistanceLevels (acceptSample_interval s p now) =
     (if js_eq p (Math_max (getPriceHistory 20 (acceptSample_interval s p now))) \<and>
         p \<notin> set (resistanceLevels s)
      then resistanceLevels s @ [p] else resistanceLevels s)"
proof -
  let ?s3 = "s\<lparr>date := Some now, previousPrice := price s, price := p\<rparr>"
  let ?s4 = "?s3\<lparr>priceHistory := pushed (priceHistory s) (PriceEntry p (Some now))\<rparr>"
  have w: "getPriceHistory 20 (acceptSample_interval s p now) = getPriceHistory 20 ?s4"
    by (rule getPriceHistory_cong) (simp add: acceptSample_interval_fields)
  have st: "storePriceData_interval ?s3 = updateSupportResistanceLevels_interval ?s4"
    by (simp add: storePriceData_interval_def Let_def pushed_def)
  show "supportLevels (acceptSample_interval s p now) =
     (if js_eq p (Math_min (getPriceHistory 20 (acceptSample_interval s p now))) \<and>
         p \<notin> set (supportLevels s)
      then supportLevels s @ [p] else supportLevels s)"
    unfolding w by (simp add: acceptSample_interval_def st levels_updateSupportResistanceLevels_interval)
  show "resistanceLevels (acceptSample_interval s p now) =
     (if js_eq p (Math_max (getPriceHistory 20 (acceptSample_interval s p now))) \<and>
         p \<notin> set (resistanceLevels s)
      then resistanceLevels s @ [p] else resistanceLevels s)"
    unfolding w by (simp add: acceptSample_interval_def st levels_updateSupportResistanceLevels_interval)
qed

lemma run_interval_invariant:
  assumes "I s" and "\<And>s p now. I s \<Longrightarrow> I (acceptSample_interval s p now)"
  shows "I (run_interval s samples)"
  using assms(1)
  by (induction s samples rule: run_interval.induct) (simp_all add: assms(2))

lemma levels_run_extend:
  "\<exists>ys. supportLevels (run s samples) = supportLevels s @ ys"
  "\<exists>ys. resistanceLevels (run s samples) = resistanceLevels s @ ys"
proof -
  have "(\<exists>ys. supportLevels (run s samples) = supportLevels s @ ys) \<and>
        (\<exists>ys. resistanceLevels (run s samples) = resistanceLevels s @ ys)"
  proof (induction s samples rule: run.induct)
    case (1 s)
    then show ?case by simp
  next
    case (2 s p now samples)
    have "\<exists>zs. supportLevels (acceptSample s p now) = supportLevels s @ zs"
      "\<exists>zs. resistanceLevels (acceptSample s p now) = resistanceLevels s @ zs"
      by (simp_all add: levels_acceptSample)
    with 2 show ?case by (simp, metis append.assoc)
  qed
  then show "\<exists>ys. supportLevels (run s samples) = supportLevels s @ ys"
    "\<exists>ys. resistanceLevels (run s samples) = resistanceLevels s @ ys" by blast+
qed

lemma levels_run_interval_extend:
  "\<exists>ys. supportLevels (run_interval s samples) = supportLevels s @ ys"
  "\<exists>ys. resistanceLevels (run_interval s samples) = resistanceLevels s @ ys"
proof -
  have "(\<exists>ys. supportLevels (run_interval s samples) = supportLevels s @ ys) \<and>
        (\<exists>ys. resistanceLevels (run_interval s samples) = resistanceLevels s @ ys)"
  proof (induction s samples rule: run_interval.induct)
    case (1 s)
    then show ?case by simp
  next
    case (2 s p now samples)
    have "\<exists>zs. supportLevels (acceptSample_interval s p now) = supportLevels s @ zs"
      "\<exists>zs. resistanceLevels (acceptSample_interval s p now) = resistanceLevels s @ zs"
      by (simp_all add: levels_acceptSample_interval)
    with 2 show ?case by (simp, metis append.assoc)
  qed
  then show "\<exists>ys. supportLevels (run_interval s samples) = supportLevels s @ ys"
    "\<exists>ys. resistanceLevels (run_interval s samples) = resistanceLevels s @ ys" by blast+
qed

lemma levels_distinct_acceptSample:
  "distinct (supportLevels s) \<and> distinct (resistanceLevels s) \<Longrightarrow>
   distinct (supportLevels (acceptSample s p now)) \<and>
   distinct (resistanceLevels (acceptSample s p now))"
  by (simp add: levels_acceptSample)

lemma levels_distinct_acceptSample_interval:
  "distinct (supportLevels s) \<and> distinct (resistanceLevels s) \<Longrightarrow>
   distinct (supportLevels (acceptSample_interval s p now)) \<and>
   distinct (resistanceLevels (acceptSample_interval s p now))"
  by (simp add: levels_acceptSample_interval)

lemma levels_distinct_run:
  "distinct (supportLevels (run (new_Ticker sy cu) samples)) \<and>
   distinct (resistanceLevels (run (new_Ticker sy cu) samples))"
  by (rule run_invariant[where I = "\<lambda>s. distinct (supportLevels s) \<and> distinct (resistanceLevels s)"])
     (simp_all add: new_Ticker_def levels_distinct_acceptSample)

lemma levels_distinct_run_interval:
  "distinct (supportLevels (run_interval (new_Ticker sy cu) samples)) \<and>
   distinct (resistanceLevels (run_interval (new_Ticker sy cu) samples))"
  by (rule run_interval_invariant[where I = "\<lambda>s. distinct (supportLevels s) \<and> distinct (resistanceLevels s)"])
     (simp_all add: new_Ticker_def levels_distinct_acceptSample_interval)

text \<open>
  Claim C7. In both variants an accepted sample leaves each level list as it was or appends
  the sample's price to it, and it appends only a price that is not in the list yet and that
  equals the minimum (for support) or the maximum (for resistance) of the tracked window: the
  whole price history in the cron-driven variant, its last 20 prices in the interval-driven
  one. So over any sequence of accepted samples each list only grows at its end, and the lists
  of a ticker that started fresh hold no value twice.
\<close>

theorem levels_grow_without_duplicates:
  "(let s' = acceptSample s p now
    in (supportLevels s' = supportLevels s \<or>
        supportLevels s' = supportLevels s @ [p] \<and> p \<notin> set (supportLevels s) \<and>
        js_eq p (Math_min (map entry_price (priceHistory s')))) \<and>
       (resistanceLevels s' = resistanceLevels s \<or>
        resistanceLevels s' = resistanceLevels s @ [p] \<and> p \<notin> set (resistanceLevels s) \<and>
        js_eq p (Math_max (map entry_price (priceHistory s'))))) \<and>
   (let s' = acceptSample_interval s p now
    in (supportLevels s' = supportLevels s \<or>
        supportLevels s' = supportLevels s @ [p] \<and> p \<notin> set (supportLevels s) \<and>
        js_eq p (Math_min (getPriceHistory 20 s'))) \<and>
       (resistanceLevels s' = resistanceLevels s \<or>
        resistanceLevels s' = resistanceLevels s @ [p] \<and> p \<notin> set (resistanceLevels s) \<and>
        js_eq p (Math_max (getPriceHistory 20 s')))) \<and>
   (\<exists>ys. supportLevels (run s samples) = supportLevels s @ ys) \<and>
   (\<exists>ys. resistanceLevels (run s samples) = resistanceLevels s @ ys) \<and>
   (\<exists>ys. supportLevels (run_interval s samples) = supportLevels s @ ys) \<and>
   (\<exists>ys. resistanceLevels (run_interval s samples) = resistanceLevels s @ ys) \<and>
   distinct (supportLevels (run (new_Ticker sy cu) samples)) \<and>
   distinct (resistanceLevels (run (new_Ticker sy cu) samples)) \<and>
   distinct (supportLevels (run_interval (new_Ticker sy cu) samples)) \<and>
   distinct (resistanceLevels (run_interval (new_Ticker sy cu) samples))"
proof -
  have a: "supportLevels (acceptSample s p now) = supportLevels s \<or>
        supportLevels (acceptSample s p now) = supportLevels s @ [p] \<and>
        p \<notin> set (supportLevels s) \<and>
        js_eq p (Math_min (map entry_price (priceHistory (acceptSample s p now))))"
    by (subst (1 2) levels_acceptSample(1)) simp
  have b: "resistanceLevels (acceptSample s p now) = resistanceLevels s \<or>
        resistanceLevels (acceptSample s p now) = resistanceLevels s @ [p] \<and>
        p \<notin> set (resistanceLevels s) \<and>
        js_eq p (Math_max (map entry_price (priceHistory (acceptSample s p now))))"
    by (subst (1 2) levels_acceptSample(2)) simp
  have c: "supportLevels (acceptSample_interval s p now) = supportLevels s \<or>
        supportLevels (acceptSample_interval s p now) = supportLevels s @ [p] \<and>
        p \<notin> set (supportLevels s) \<and>
        js_eq p (Math_min (getPriceHistory 20 (acceptSample_interval s p now)))"
    by (subst (1 2) levels_acceptSample_interval(1)) simp
  have d: "resistanceLevels (acceptSample_interval s p now) = resistanceLevels s \<or>
        resistanceLevels (acceptSample_interval s p now) = resistanceLevels s @ [p] \<and>
        p \<notin> set (resistanceLevels s) \<and>
        js_eq p (Math_max (getPriceHistory 20 (acceptSample_interval s p now)))"
    by (subst (1 2) levels_acceptSample_interval(2)) simp
  show ?thesis
    unfolding Let_def
    using a b c d levels_run_extend[of s samples] levels_run_interval_extend[of s samples]
      levels_distinct_run[of sy cu samples] levels_distinct_run_interval[of sy cu samples]
    by blast
qed

theorem levels_grow_without_duplicates_witness:
  "Fin 10 \<notin> set (supportLevels (new_Ticker ''XAU'' ''USD'')) \<and>
   supportLevels (acceptSample (new_Ticker ''XAU'' ''USD'') (Fin 10) (Date 0 1)) = [Fin 10] \<and>
   js_eq (Fin 10)
     (Math_min (map entry_price
        (priceHistory (acceptSample (new_Ticker ''XAU'' ''USD'') (Fin 10) (Date 0 1)))))"
proof -
  let ?t = "new_Ticker ''XAU'' ''USD''"
  let ?s' = "acceptSample ?t (Fin 10) (Date 0 1)"
  have e: "supportLevels ?t = []" by (simp add: new_Ticker_def)
  have new: "supportLevels ?s' = [Fin 10]"
    by (simp add: levels_acceptSample acceptSample_fields(5) pushed_def new_Ticker_def js_eq_def)
  from levels_grow_without_duplicates[of ?t "Fin 10" "Date 0 1" "[]" "''XAU''" "''USD''"]
  have "supportLevels ?s' = supportLevels ?t \<or>
        supportLevels ?s' = supportLevels ?t @ [Fin 10] \<and> Fin 10 \<notin> set (supportLevels ?t) \<and>
        js_eq (Fin 10) (Math_min (map entry_price (priceHistory ?s')))"
    unfolding Let_def by blast
  with e new show ?thesis by simp
qed


section \<open>The classifier\<close>

lemma js_lt_asym: "js_lt a b \<Longrightarrow> \<not> js_lt b a"
  by (cases a; cases b) auto

lemma fetchPrice_interval_cases:
  obtains (unchanged) e where "fetchPrice_interval pf r now s = (Some e, s)"
  | (partial) "fetchPrice_interval pf r now s =
                 (Some TypeError, s\<lparr>date := Some now, previousPrice := price s\<rparr>)"
  | (accepted) p where "fetchPrice_interval pf r now s = (None, acceptSample_interval s p now)"
proof (cases r)
  case Rejected
  then have "fetchPrice_interval pf r now s = (Some NetworkError, s)"
    by (simp add: fetchPrice_interval_def)
  then show ?thesis by (rule unchanged)
next
  case (Response ok_flag code body)
  show ?thesis
  proof (cases "ok_flag \<and> body \<noteq> None")
    case False
    then consider "\<not> ok_flag" | "ok_flag" "body = None" by blast
    then show ?thesis
    proof cases
      case 1
      with Response have "fetchPrice_interval pf r now s = (Some (RequestFailed code), s)"
        by (simp add: fetchPrice_interval_def)
      then show ?thesis by (rule unchanged)
    next
      case 2
      with Response have "fetchPrice_interval pf r now s = (Some InvalidJson, s)"
        by (simp add: fetchPrice_interval_def)
      then show ?thesis by (rule unchanged)
    qed
  next
    case True
    then obtain data where data: "ok_flag" "body = Some data" by auto
    show ?thesis
    proof (cases "\<not> truthy data \<or> \<not> (case index0 data of None \<Rightarrow> False | Some v \<Rightarrow> truthy v)")
      case True
      with Response data have "fetchPrice_interval pf r now s = (Some InvalidOrEmpty, s)"
        by (simp add: fetchPrice_interval_def)
      then show ?thesis by (rule unchanged)
    next
      case False
      from price_field_cases[of pf "index0 data"] show ?thesis
      proof
        assume "price_field pf (index0 data) = Inl TypeError"
        with Response data False have "fetchPrice_interval pf r now s =
            (Some TypeError, s\<lparr>date := Some now, previousPrice := price s\<rparr>)"
          by (simp add: fetchPrice_interval_def Let_def)
        then show ?thesis by (rule partial)
      next
        assume "\<exists>p. price_field pf (index0 data) = Inr p"
        then obtain p where "price_field pf (index0 data) = Inr p" ..
        then have "fetchPrice_interval pf r now s = (None, acceptSample_interval s p now)"
          using Response data False
          by (simp add: fetchPrice_interval_def Let_def acceptSample_interval_def)
        then show ?thesis using accepted by blast
      qed
    qed
  qed
qed

lemma fetchPrices_interval_invariant:
  assumes "I s"
    and "\<And>s p now. I s \<Longrightarrow> I (acceptSample_interval s p now)"
    and "\<And>s now. I s \<Longrightarrow> I (s\<lparr>date := Some now, previousPrice := price s\<rparr>)"
  shows "I (fetchPrices_interval pf s polls)"
  using assms(1)
proof (induction polls arbitrary: s)
  case Nil
  then show ?case by simp
next
  case (Cons poll polls)
  obtain r now where poll: "poll = (r, now)" by (cases poll)
  have "I (snd (fetchPrice_interval pf r now s))"
    by (cases rule: fetchPrice_interval_cases[of pf r now s])
       (simp_all add: Cons.prems assms(2,3))
  then show ?case using Cons.IH poll by simp
qed

lemma empty_or_recorded_polls:
  "priceHistory (fetchPrices_interval pf (new_Ticker sy cu) polls) = [] \<or>
   price_recorded (fetchPrices_interval pf (new_Ticker sy cu) polls)"
proof (rule fetchPrices_interval_invariant[where I = "\<lambda>s. priceHistory s = [] \<or> price_recorded s"])
  show "priceHistory (new_Ticker sy cu) = [] \<or> price_recorded (new_Ticker sy cu)"
    by (simp add: new_Ticker_def)
next
  fix s p now
  show "priceHistory (acceptSample_interval s p now) = [] \<or>
        price_recorded (acceptSample_interval s p now)"
    by (simp add: price_recorded_acceptSample_interval)
next
  fix s :: ticker and now
  assume "priceHistory s = [] \<or> price_recorded s"
  then show "priceHistory (s\<lparr>date := Some now, previousPrice := price s\<rparr>) = [] \<or>
        price_recorded (s\<lparr>date := Some now, previousPrice := price s\<rparr>)"
    by (simp add: price_recorded_def)
qed

lemma calculateVolatility_empty:
  "priceHistory s = [] \<Longrightarrow> calculateVolatility s = NaN"
  by (simp add: calculateVolatility_def getPriceHistory_def slice_def Let_def)

lemma low_volatility_no_trend:
  assumes "priceHistory s = [] \<or> price_recorded s"
    and vol: "js_lt (calculateVolatility s) (Fin (2 / 100))"
  shows "\<not> js_gt (calculateTrendStrength_interval s) (Fin (5 / 10))"
    and "\<not> js_lt (calculateTrendStrength_interval s) (Fin (- (5 / 10)))"
proof -
  from assms have rec: "price_recorded s" by (auto simp: calculateVolatility_empty)
  from low_volatility_flat[OF price_in_window[OF rec] vol] obtain t
    where t: "calculateTrendStrength_interval s = Fin t" "\<bar>t\<bar> < 7 / 100" by blast
  from t(2) have "\<not> 5 / 10 < t" "\<not> t < - (5 / 10)" by auto
  then show "\<not> js_gt (calculateTrendStrength_interval s) (Fin (5 / 10))"
    and "\<not> js_lt (calculateTrendStrength_interval s) (Fin (- (5 / 10)))"
    by (simp_all add: t(1) js_gt_def)
qed

lemma calculateScore_interval_NEUTRAL:
  assumes "priceHistory s = [] \<or> price_recorded s"
  shows "calculateScore_interval s = NEUTRAL"
  using low_volatility_no_trend[OF assms]
  by (auto simp: calculateScore_interval_def Let_def)

text \<open>
  Claim C8. In the cron-driven variant, for every ticker state, \<open>calculateScore\<close> returns BUY
  exactly when the price change is positive, the volatility is below 0.02, the trend strength
  is above 0.5 and no resistance level \<open>L\<close> has \<open>price >= L * 0.99\<close>; SELL exactly when
  the price change is negative, the volatility is below 0.02, the trend strength is below -0.5
  and no support level \<open>L\<close> has \<open>price <= L * 1.01\<close>; and NEUTRAL exactly when neither
  holds. The interval-driven variant does not look at the levels, but its states reached from a
  fresh ticker by any polls satisfy the same three equivalences.
\<close>

theorem calculateScore_iff:
  "(let priceChange = js_sub (price s) (previousPrice s);
        volatility = calculateVolatility s;
        trendStrength = calculateTrendStrength s;
        buy = (js_gt priceChange (Fin 0) \<and> js_lt volatility (Fin (2 / 100)) \<and>
               js_gt trendStrength (Fin (5 / 10)) \<and>
               \<not> (\<exists>L \<in> set (resistanceLevels s). js_ge (price s) (js_mul L (Fin (99 / 100)))));
        sell = (js_lt priceChange (Fin 0) \<and> js_lt volatility (Fin (2 / 100)) \<and>
                js_lt trendStrength (Fin (- (5 / 10))) \<and>
                \<not> (\<exists>L \<in> set (supportLevels s). js_le (price s) (js_mul L (Fin (101 / 100)))))
    in (calculateScore s = BUY \<longleftrightarrow> buy) \<and> (calculateScore s = SELL \<longleftrightarrow> sell) \<and>
       (calculateScore s = NEUTRAL \<longleftrightarrow> \<not> buy \<and> \<not> sell)) \<and>
   (let r = fetchPrices_interval parseFloat (new_Ticker sy cu) polls;
        priceChange = js_sub (price r) (previousPrice r);
        volatility = calculateVolatility r;
        trendStrength = calculateTrendStrength_interval r;
        buy = (js_gt priceChange (Fin 0) \<and> js_lt volatility (Fin (2 / 100)) \<and>
               js_gt trendStrength (Fin (5 / 10)) \<and>
               \<not> (\<exists>L \<in> set (resistanceLevels r). js_ge (price r) (js_mul L (Fin (99 / 100)))));
        sell = (js_lt priceChange (Fin 0) \<and> js_lt volatility (Fin (2 / 100)) \<and>
                js_lt trendStrength (Fin (- (5 / 10))) \<and>
                \<not> (\<exists>L \<in> set (supportLevels r). js_le (price r) (js_mul L (Fin (101 / 100)))))
    in (calculateScore_interval r = BUY \<longleftrightarrow> buy) \<and> (calculateScore_interval r = SELL \<longleftrightarrow> sell) \<and>
       (calculateScore_interval r = NEUTRAL \<longleftrightarrow> \<not> buy \<and> \<not> sell))"
proof (rule conjI)
  have ex: "\<not> (js_gt (js_sub (price s) (previousPrice s)) (Fin 0) \<and>
                js_lt (js_sub (price s) (previousPrice s)) (Fin 0))"
    using js_lt_asym by (auto simp: js_gt_def)
  show "let priceChange = js_sub (price s) (previousPrice s);
        volatility = calculateVolatility s;
        trendStrength = calculateTrendStrength s;
        buy = (js_gt priceChange (Fin 0) \<and> js_lt volatility (Fin (2 / 100)) \<and>
               js_gt trendStrength (Fin (5 / 10)) \<and>
               \<not> (\<exists>L \<in> set (resistanceLevels s). js_ge (price s) (js_mul L (Fin (99 / 100)))));
        sell = (js_lt priceChange (Fin 0) \<and> js_lt volatility (Fin (2 / 100)) \<and>
                js_lt trendStrength (Fin (- (5 / 10))) \<and>
                \<not> (\<exists>L \<in> set (supportLevels s). js_le (price s) (js_mul L (Fin (101 / 100)))))
    in (calculateScore s = BUY \<longleftrightarrow> buy) \<and> (calculateScore s = SELL \<longleftrightarrow> sell) \<and>
       (calculateScore s = NEUTRAL \<longleftrightarrow> \<not> buy \<and> \<not> sell)"
    using ex unfolding calculateScore_def Let_def list_ex_iff by auto
next
  define r where "r = fetchPrices_interval parseFloat (new_Ticker sy cu) polls"
  have inv: "priceHistory r = [] \<or> price_recorded r"
    unfolding r_def by (rule empty_or_recorded_polls)
  note nt = low_volatility_no_trend[OF inv] calculateScore_interval_NEUTRAL[OF inv]
  have "(calculateScore_interval r = BUY \<longleftrightarrow>
          js_gt (js_sub (price r) (previousPrice r)) (Fin 0) \<and>
          js_lt (calculateVolatility r) (Fin (2 / 100)) \<and>
          js_gt (calculateTrendStrength_interval r) (Fin (5 / 10)) \<and>
          \<not> (\<exists>L \<in> set (resistanceLevels r). js_ge (price r) (js_mul L (Fin (99 / 100))))) \<and>
        (calculateScore_interval r = SELL \<longleftrightarrow>
          js_lt (js_sub (price r) (previousPrice r)) (Fin 0) \<and>
          js_lt (calculateVolatility r) (Fin (2 / 100)) \<and>
          js_lt (calculateTrendStrength_interval r) (Fin (- (5 / 10))) \<and>
          \<not> (\<exists>L \<in> set (supportLevels r). js_le (price r) (js_mul L (Fin (101 / 100)))))"
    using nt by auto
  then show "let r = fetchPrices_interval parseFloat (new_Ticker sy cu) polls;
        priceChange = js_sub (price r) (previousPrice r);
        volatility = calculateVolatility r;
        trendStrength = calculateTrendStrength_interval r;
        buy = (js_gt priceChange (Fin 0) \<and> js_lt volatility (Fin (2 / 100)) \<and>
               js_gt trendStrength (Fin (5 / 10)) \<and>
               \<not> (\<exists>L \<in> set (resistanceLevels r). js_ge (price r) (js_mul L (Fin (99 / 100)))));
        sell = (js_lt priceChange (Fin 0) \<and> js_lt volatility (Fin (2 / 100)) \<and>
                js_lt trendStrength (Fin (- (5 / 10))) \<and>
                \<not> (\<exists>L \<in> set (supportLevels r). js_le (price r) (js_mul L (Fin (101 / 100)))))
    in (calculateScore_interval r = BUY \<longleftrightarrow> buy) \<and> (calculateScore_interval r = SELL \<longleftrightarrow> sell) \<and>
       (calculateScore_interval r = NEUTRAL \<longleftrightarrow> \<not> buy \<and> \<not> sell)"
    unfolding Let_def r_def[symmetric] using nt(3) by (cases "calculateScore_interval r") auto
qed

theorem calculateScore_iff_witness:
  "calculateScore
     \<lparr> symbol = ''XAU'', price = Fin 11, previousPrice = Fin 10, date = Some (Date 0 1),
       score = NEUTRAL, currency = ''USD'', endPoint = ''/'',
       lowPriceOfTheDay = Fin 10, highPriceOfTheDay = Fin 11,
       priceHistory = [PriceEntry (Fin 10) (Some (Date 0 1))], scoreHistory = [],
       supportLevels = [Fin 10], resistanceLevels = [Fin 20],
       trendDirection = NEUTRAL_trend \<rparr> = BUY \<and>
   \<not> js_ge (Fin 11) (js_mul (Fin 20) (Fin (99 / 100)))"
  using calculateScore_iff[of
     "\<lparr> symbol = ''XAU'', price = Fin 11, previousPrice = Fin 10, date = Some (Date 0 1),
       score = NEUTRAL, currency = ''USD'', endPoint = ''/'',
       lowPriceOfTheDay = Fin 10, highPriceOfTheDay = Fin 11,
       priceHistory = [PriceEntry (Fin 10) (Some (Date 0 1))], scoreHistory = [],
       supportLevels = [Fin 10], resistanceLevels = [Fin 20],
       trendDirection = NEUTRAL_trend \<rparr>" "\<lambda>_. NaN" "''XAU''" "''USD''" "[]"]
  by (simp add: Let_def calculateVolatility_def calculateTrendStrength_def getPriceHistory_def
        slice_def js_sub_def js_gt_def js_ge_def js_le_def js_eq_def new_Ticker_def
        calculateScore_interval_def calculateTrendStrength_interval_def)


section \<open>The stored signal\<close>




lemma score_polls: "score (fetchPrices parseFloat (new_Ticker sy cu) polls) = NEUTRAL"
  by (rule fetchPrices_invariant[where I = "\<lambda>s. score s = NEUTRAL"])
     (simp_all add: new_Ticker_def acceptSample_fields)

lemma length_scoreHistory_polls:
  "length (scoreHistory (fetchPrices parseFloat (new_Ticker sy cu) polls)) \<le> 100"
  by (rule fetchPrices_invariant[where I = "\<lambda>s. length (scoreHistory s) \<le> 100"])
     (simp_all add: new_Ticker_def acceptSample_fields length_pushed)



section \<open>Concrete runs\<close>

text \<open>
  A run on given samples is computed by rewriting with the definitions of the steps; the only
  comparison that needs help is the one of a square root with the volatility threshold.
\<close>

lemma js_lt_sqrt_iff:
  "0 < c \<Longrightarrow> js_lt (Math_sqrt (Fin a)) (Fin c) \<longleftrightarrow> 0 \<le> a \<and> a < c * c"
proof -
  assume c: "0 < c"
  have "sqrt a < c \<longleftrightarrow> a < c * c" if "0 \<le> a"
  proof
    assume "sqrt a < c"
    then show "a < c * c" using that c by (rule sqrt_less_numeral[rotated 2])
  next
    assume "a < c * c"
    then have "sqrt a < sqrt (c * c)" by (simp only: real_sqrt_less_iff)
    then show "sqrt a < c" using c by simp
  qed
  then show ?thesis by (auto simp: not_less)
qed

lemmas eval_defs = new_Ticker_def acceptSample_def updatePriceOfTheDay_on_def storePriceData_def
  storeScore_def detectBOS_def detectCOC_def updateSupportResistanceLevels_def getPriceHistory_def
  slice_def js_gt_def js_eq_def js_le_def js_ge_def includes_js_def Let_def calculateScore_def
  calculateVolatility_def calculateTrendStrength_def js_sub_def js_lt_sqrt_iff

lemma sqrt_9_100: "sqrt (9 / 100) = 3 / 10"
  by (rule real_sqrt_unique) (simp_all add: power2_eq_square)

lemma flat_then_up_state:
  "run (new_Ticker ''XAU'' ''USD'')
     [(Fin 10, Date 0 1), (Fin 10, Date 60000 1), (Fin 10, Date 120000 1),
      (Fin 10, Date 180000 1), (Fin 10, Date 240000 1), (Fin 10, Date 300000 1),
      (Fin 10, Date 360000 1), (Fin 10, Date 420000 1), (Fin 10, Date 480000 1),
      (Fin 11, Date 540000 1)] =
   \<lparr> symbol = ''XAU'', price = Fin 11, previousPrice = Fin 10,
     date = Some (Date 540000 1), score = NEUTRAL, currency = ''USD'',
     endPoint = ''https://data-asg.goldprice.org/GetData/USD-XAU/1'',
     lowPriceOfTheDay = Fin 10, highPriceOfTheDay = Fin 11,
     priceHistory =
       [PriceEntry (Fin 10) (Some (Date 0 1)), PriceEntry (Fin 10) (Some (Date 60000 1)),
        PriceEntry (Fin 10) (Some (Date 120000 1)), PriceEntry (Fin 10) (Some (Date 180000 1)),
        PriceEntry (Fin 10) (Some (Date 240000 1)), PriceEntry (Fin 10) (Some (Date 300000 1)),
        PriceEntry (Fin 10) (Some (Date 360000 1)), PriceEntry (Fin 10) (Some (Date 420000 1)),
        PriceEntry (Fin 10) (Some (Date 480000 1)), PriceEntry (Fin 11) (Some (Date 540000 1))],
     scoreHistory =
       [ScoreEntry NEUTRAL (Some (Date 0 1)), ScoreEntry NEUTRAL (Some (Date 60000 1)),
        ScoreEntry NEUTRAL (Some (Date 120000 1)), ScoreEntry NEUTRAL (Some (Date 180000 1)),
        ScoreEntry NEUTRAL (Some (Date 240000 1)), ScoreEntry NEUTRAL (Some (Date 300000 1)),
        ScoreEntry NEUTRAL (Some (Date 360000 1)), ScoreEntry NEUTRAL (Some (Date 420000 1)),
        ScoreEntry NEUTRAL (Some (Date 480000 1)), ScoreEntry NEUTRAL (Some (Date 540000 1))],
     supportLevels = [Fin 10], resistanceLevels = [Fin 10, Fin 11],
     trendDirection = NEUTRAL_trend \<rparr>"
  by (simp add: eval_defs)

text \<open>
  Claim C5, as the program has it. On the accepted prices 10 (nine times) and then 11, from a
  fresh ticker, the signal of the last sample is NEUTRAL: the volatility of the window is 0.3,
  not below 0.02; the price 11 is a new maximum, so it has just become a resistance level
  itself and the price is near it; and for the same reason the trend strength 0.9 is turned
  into -1.08.
\<close>

theorem flat_then_up_is_neutral:
  "(let s = run (new_Ticker ''XAU'' ''USD'')
       [(Fin 10, Date 0 1), (Fin 10, Date 60000 1), (Fin 10, Date 120000 1),
        (Fin 10, Date 180000 1), (Fin 10, Date 240000 1), (Fin 10, Date 300000 1),
        (Fin 10, Date 360000 1), (Fin 10, Date 420000 1), (Fin 10, Date 480000 1),
        (Fin 11, Date 540000 1)]
    in calculateScore s = NEUTRAL \<and>
       last (scoreHistory s) = ScoreEntry NEUTRAL (Some (Date 540000 1)) \<and>
       calculateVolatility s = Fin (3 / 10) \<and>
       calculateTrendStrength s = Fin (- (108 / 100)) \<and>
       resistanceLevels s = [Fin 10, Fin 11])"
  unfolding flat_then_up_state Let_def
  by (simp add: calculateScore_def calculateVolatility_def calculateTrendStrength_def
        getPriceHistory_def slice_def js_sub_def js_gt_def js_ge_def js_le_def js_eq_def
        Let_def sqrt_9_100)

theorem flat_then_up_counterexample:
  "calculateScore
     (run (new_Ticker ''XAU'' ''USD'')
       [(Fin 10, Date 0 1), (Fin 10, Date 60000 1), (Fin 10, Date 120000 1),
        (Fin 10, Date 180000 1), (Fin 10, Date 240000 1), (Fin 10, Date 300000 1),
        (Fin 10, Date 360000 1), (Fin 10, Date 420000 1), (Fin 10, Date 480000 1),
        (Fin 11, Date 540000 1)]) \<noteq> BUY \<and>
   entry_score (last (scoreHistory
     (run (new_Ticker ''XAU'' ''USD'')
       [(Fin 10, Date 0 1), (Fin 10, Date 60000 1), (Fin 10, Date 120000 1),
        (Fin 10, Date 180000 1), (Fin 10, Date 240000 1), (Fin 10, Date 300000 1),
        (Fin 10, Date 360000 1), (Fin 10, Date 420000 1), (Fin 10, Date 480000 1),
        (Fin 11, Date 540000 1)]))) \<noteq> BUY"
  unfolding flat_then_up_state
  by (simp add: calculateScore_def calculateVolatility_def calculateTrendStrength_def
        getPriceHistory_def slice_def js_sub_def js_gt_def js_ge_def js_le_def js_eq_def
        Let_def sqrt_9_100)


section \<open>Break of structure\<close>

lemma not_lt_max2: "\<not> js_lt (max2 a b) a" "\<not> js_lt (max2 a b) b"
  by (cases a; cases b; simp)+

lemma not_lt_min2: "\<not> js_lt a (min2 a b)" "\<not> js_lt b (min2 a b)"
  by (cases a; cases b; simp)+

lemma max2_mono: "\<not> js_lt m x \<Longrightarrow> \<not> js_lt (max2 a m) x"
  by (cases a; cases m; cases x) (auto split: if_splits)

lemma min2_mono: "\<not> js_lt x m \<Longrightarrow> \<not> js_lt x (min2 a m)"
  by (cases a; cases m; cases x) (auto split: if_splits)

lemma not_lt_Math_max: "x \<in> set xs \<Longrightarrow> \<not> js_lt (Math_max xs) x"
  by (induction xs) (auto simp: not_lt_max2 max2_mono)

lemma not_lt_Math_min: "x \<in> set xs \<Longrightarrow> \<not> js_lt x (Math_min xs)"
  by (induction xs) (auto simp: not_lt_min2 min2_mono)

text \<open>
  \<open>detectBOS\<close> compares the price with the extremes of a window that already holds it, so
  it never changes the trend after the sample has been stored; an accepted sample only ever
  takes the trend to NEUTRAL.
\<close>

lemma detectBOS_recorded: "price_recorded s \<Longrightarrow> detectBOS s = s"
  using price_in_window(2)[of s]
  by (simp add: detectBOS_def Let_def js_gt_def not_lt_Math_max not_lt_Math_min)

lemma trendDirection_acceptSample:
  "trendDirection (acceptSample s p now) =
     (if trendDirection s = UP \<and> js_lt p (price s) then NEUTRAL_trend
      else if trendDirection s = DOWN \<and> js_gt p (price s) then NEUTRAL_trend
      else trendDirection s)"
proof -
  let ?m = "storeScore (scoredState s p now)"
  have rec: "price_recorded ?m"
    using price_recorded_scoredState[of s p now] by (simp add: price_recorded_def)
  have "acceptSample s p now = detectCOC (detectBOS ?m)"
    by (simp add: acceptSample_def scoredState_def)
  also have "\<dots> = detectCOC ?m" by (simp add: detectBOS_recorded[OF rec])
  finally show ?thesis by (simp add: detectCOC_def scoredState_def)
qed

lemma trendDirection_polls:
  "trendDirection (fetchPrices parseFloat (new_Ticker sy cu) polls) = NEUTRAL_trend"
  by (rule fetchPrices_invariant[where I = "\<lambda>s. trendDirection s = NEUTRAL_trend"])
     (simp_all add: new_Ticker_def trendDirection_acceptSample)

text \<open>
  Claim C2 fails on the program. The second sample, 11, is above the maximum of the window
  without it, which is 10, and the claim has the trend go UP; the program leaves it NEUTRAL.
\<close>

theorem detectBOS_misses_breakout:
  "js_gt (Fin 11)
     (Math_max (getPriceHistory 10
        (run (new_Ticker ''XAU'' ''USD'') [(Fin 10, Date 0 1)]))) \<and>
   trendDirection (run (new_Ticker ''XAU'' ''USD'') [(Fin 10, Date 0 1)]) = NEUTRAL_trend \<and>
   trendDirection
     (run (new_Ticker ''XAU'' ''USD'') [(Fin 10, Date 0 1), (Fin 11, Date 60000 1)]) =
   NEUTRAL_trend"
  by (simp add: trendDirection_acceptSample new_Ticker_def getPriceHistory_def slice_def
        acceptSample_fields pushed_def js_gt_def)

section \<open>Day bounds\<close>

lemma day_bounds_acceptSample:
  "lowPriceOfTheDay (acceptSample s p now) =
     (if js_lt p (lowPriceOfTheDay s) then p else lowPriceOfTheDay s)"
  "highPriceOfTheDay (acceptSample s p now) =
     (if js_gt p (highPriceOfTheDay s) then p else highPriceOfTheDay s)"
  by (simp_all add: acceptSample_def updatePriceOfTheDay_on_def Let_def)

text \<open>
  Claim C3 fails on the program. A sample of 10 on day 1 is followed by a sample of 20 on
  day 2. The claim has both bounds reset and then folded, which gives a day-low of 20; the
  program keeps the low of the day before, 10.
\<close>

theorem day_change_keeps_bounds:
  "getDate (Date 0 1) \<noteq> getDate (Date 86400000 2) \<and>
   lowPriceOfTheDay
     (run (new_Ticker ''XAU'' ''USD'') [(Fin 10, Date 0 1), (Fin 20, Date 86400000 2)]) =
   Fin 10 \<and>
   highPriceOfTheDay
     (run (new_Ticker ''XAU'' ''USD'') [(Fin 10, Date 0 1), (Fin 20, Date 86400000 2)]) =
   Fin 20"
  by (simp add: day_bounds_acceptSample new_Ticker_def js_gt_def)


section \<open>Trend strength without levels\<close>

lemma nan_then_jump_state:
  "run (new_Ticker ''XAU'' ''USD'')
     [(NaN, Date 0 1), (Fin 0, Date 60000 1), (Fin 0, Date 120000 1), (Fin 0, Date 180000 1),
      (Fin 0, Date 240000 1), (Fin 0, Date 300000 1), (Fin 0, Date 360000 1),
      (Fin 0, Date 420000 1), (Fin 0, Date 480000 1), (Fin 0, Date 540000 1),
      (Fin 10, Date 600000 1)] =
   \<lparr> symbol = ''XAU'', price = Fin 10, previousPrice = Fin 0,
     date = Some (Date 600000 1), score = NEUTRAL, currency = ''USD'',
     endPoint = ''https://data-asg.goldprice.org/GetData/USD-XAU/1'',
     lowPriceOfTheDay = Fin 0, highPriceOfTheDay = Fin 10,
     priceHistory =
       [PriceEntry NaN (Some (Date 0 1)), PriceEntry (Fin 0) (Some (Date 60000 1)),
        PriceEntry (Fin 0) (Some (Date 120000 1)), PriceEntry (Fin 0) (Some (Date 180000 1)),
        PriceEntry (Fin 0) (Some (Date 240000 1)), PriceEntry (Fin 0) (Some (Date 300000 1)),
        PriceEntry (Fin 0) (Some (Date 360000 1)), PriceEntry (Fin 0) (Some (Date 420000 1)),
        PriceEntry (Fin 0) (Some (Date 480000 1)), PriceEntry (Fin 0) (Some (Date 540000 1)),
        PriceEntry (Fin 10) (Some (Date 600000 1))],
     scoreHistory =
       [ScoreEntry NEUTRAL (Some (Date 0 1)), ScoreEntry NEUTRAL (Some (Date 60000 1)),
        ScoreEntry NEUTRAL (Some (Date 120000 1)), ScoreEntry NEUTRAL (Some (Date 180000 1)),
        ScoreEntry NEUTRAL (Some (Date 240000 1)), ScoreEntry NEUTRAL (Some (Date 300000 1)),
        ScoreEntry NEUTRAL (Some (Date 360000 1)), ScoreEntry NEUTRAL (Some (Date 420000 1)),
        ScoreEntry NEUTRAL (Some (Date 480000 1)), ScoreEntry NEUTRAL (Some (Date 540000 1)),
        ScoreEntry NEUTRAL (Some (Date 600000 1))],
     supportLevels = [], resistanceLevels = [],
     trendDirection = NEUTRAL_trend \<rparr>"
  by (simp add: eval_defs)

text \<open>
  Claim C4 fails on the program. A first sample whose price field does not parse (NaN) keeps
  both level lists empty, since no price is \<open>===\<close> to a minimum or maximum that is NaN.
  Nine samples of 0 and one of 10 follow. The last 10 prices have the average 1, so the price
  minus the average is 9, which the claim has \<open>calculateTrendStrength\<close> return; the program
  returns 10.8, because \<open>10 <= Math.min()\<close> compares with \<open>Infinity\<close> and holds.
\<close>

theorem trendStrength_amplified_without_levels:
  "(let s = run (new_Ticker ''XAU'' ''USD'')
       [(NaN, Date 0 1), (Fin 0, Date 60000 1), (Fin 0, Date 120000 1), (Fin 0, Date 180000 1),
        (Fin 0, Date 240000 1), (Fin 0, Date 300000 1), (Fin 0, Date 360000 1),
        (Fin 0, Date 420000 1), (Fin 0, Date 480000 1), (Fin 0, Date 540000 1),
        (Fin 10, Date 600000 1)]
    in supportLevels s = [] \<and> resistanceLevels s = [] \<and>
       getPriceHistory 10 s =
         [Fin 0, Fin 0, Fin 0, Fin 0, Fin 0, Fin 0, Fin 0, Fin 0, Fin 0, Fin 10] \<and>
       js_sub (price s)
         (js_div_length (foldl (\<lambda>acc p. js_add acc p) (Fin 0) (getPriceHistory 10 s))
            (length (getPriceHistory 10 s))) = Fin 9 \<and>
       js_le (price s) (Math_min (supportLevels s)) \<and>
       calculateTrendStrength s = Fin (108 / 10))"
  unfolding nan_then_jump_state Let_def
  by (simp add: calculateTrendStrength_def getPriceHistory_def slice_def js_sub_def
        js_le_def Let_def)

section \<open>Rejected payloads\<close>

text \<open>
  A request that fails, a body that is not JSON, and a payload that is falsy or whose
  \<open>data[0]\<close> is falsy are rejected before any field is written.
\<close>

lemma fetchPrice_rejected_unchanged:
  "fetchPrice parseFloat Rejected now s = (Some NetworkError, s)"
  "fetchPrice parseFloat (Response False code body) now s = (Some (RequestFailed code), s)"
  "fetchPrice parseFloat (Response True code None) now s = (Some InvalidJson, s)"
  "\<not> truthy data \<Longrightarrow>
   fetchPrice parseFloat (Response True code (Some data)) now s = (Some InvalidOrEmpty, s)"
  "index0 data = None \<Longrightarrow>
   fetchPrice parseFloat (Response True code (Some data)) now s = (Some InvalidOrEmpty, s)"
  "index0 data = Some v \<Longrightarrow> \<not> truthy v \<Longrightarrow>
   fetchPrice parseFloat (Response True code (Some data)) now s = (Some InvalidOrEmpty, s)"
  by (simp_all add: fetchPrice_def)

lemma split_comma_fields:
  "split_comma ''t,10,x'' = [''t'', ''10'', ''x'']"
  "split_comma ''abc'' = [''abc'']"
  "split_comma ''t,'' = [''t'', '''']"
  by simp_all

text \<open>A payload whose first element is a non-empty string is an accepted sample.\<close>

lemma fetchPrice_accepted:
  "str \<noteq> [] \<Longrightarrow>
   fetchPrice parseFloat (Response True code (Some (JArray (JString str # rest)))) now s =
   (None,
    acceptSample s (parseFloat (case split_comma str of _ # f # _ \<Rightarrow> f | _ \<Rightarrow> ''0'')) now)"
  by (simp add: fetchPrice_def price_field_def Let_def updatePriceOfTheDay_def acceptSample_def)

text \<open>
  Claim C9 fails on the program. The payload \<open>[42]\<close> is malformed: its first element is a
  number, not a string. It passes the test \<open>!data || !data[0]\<close>, the date and the previous
  price are overwritten, and only then does \<open>data[0].split\<close> throw. The error is logged,
  but the ticker, which had the previous price 10 and the price 11, is left with the previous
  price 11 and the date of the failed poll.
\<close>

theorem malformed_payload_partial_update:
  "(let s = run (new_Ticker ''XAU'' ''USD'') [(Fin 10, Date 0 1), (Fin 11, Date 60000 1)];
        r = fetchPrice parseFloat (Response True 200 (Some (JArray [JNumber 42])))
              (Date 120000 1) s
    in fst r = Some TypeError \<and>
       snd r = s\<lparr>date := Some (Date 120000 1), previousPrice := Fin 11\<rparr> \<and>
       previousPrice s = Fin 10 \<and> date s = Some (Date 60000 1) \<and> snd r \<noteq> s)"
proof -
  define s where "s = run (new_Ticker ''XAU'' ''USD'') [(Fin 10, Date 0 1), (Fin 11, Date 60000 1)]"
  have f: "price s = Fin 11" "previousPrice s = Fin 10" "date s = Some (Date 60000 1)"
    by (simp_all add: s_def acceptSample_fields)
  have r: "fetchPrice parseFloat (Response True 200 (Some (JArray [JNumber 42])))
              (Date 120000 1) s =
           (Some TypeError, s\<lparr>date := Some (Date 120000 1), previousPrice := Fin 11\<rparr>)"
    by (simp add: fetchPrice_def price_field_def Let_def f)
  have "s\<lparr>date := Some (Date 120000 1), previousPrice := Fin 11\<rparr> \<noteq> s"
  proof
    assume "s\<lparr>date := Some (Date 120000 1), previousPrice := Fin 11\<rparr> = s"
    then have "previousPrice (s\<lparr>date := Some (Date 120000 1), previousPrice := Fin 11\<rparr>) =
               previousPrice s" by simp
    then show False by (simp add: f)
  qed
  with r f show ?thesis
    unfolding Let_def s_def[symmetric] by simp
qed

theorem malformed_payload_partial_update_witness:
  "previousPrice
     (snd (fetchPrice (\<lambda>_. NaN) (Response True 200 (Some (JArray [JNumber 42])))
        (Date 120000 1)
        (run (new_Ticker ''XAU'' ''USD'') [(Fin 10, Date 0 1), (Fin 11, Date 60000 1)]))) =
   Fin 11"
  using malformed_payload_partial_update[of "\<lambda>_. NaN"]
  by (simp add: Let_def)

end
